theory Spec2Isabelle
  imports Main "HOL-Library.Sublist"
begin

section \<open>Data model (pkg/config/types.go)\<close>

text \<open>
  The configuration structs of the deployer, one record per Go struct. Go strings are
  byte strings, so a message in Chinese is the list of its UTF-8 bytes; each such
  constant carries its translation. Go's \<open>int\<close> is modelled by \<open>int\<close> where
  it is only compared or printed, and by \<open>nat\<close> for counters that start at 1 and are
  incremented once per list element.

  The node list of a \<open>ClusterSpec\<close> is a Go slice. The record is parameterised over
  the type of that field: \<open>NodeConfig list\<close> where a function only reads the nodes
  or owns the configuration it updates, and a slice header pointing into a store of
  backing arrays where the sharing of the backing array matters.
\<close>

record SSHConfig =
  SSH_User :: string
  SSH_Port :: int
  SSH_KeyFile :: string
  SSH_Password :: string

record NodeConfig =
  Role :: string
  IP :: string
  Hostname :: string
  GPU :: bool
  SSH :: SSHConfig

record MetadataConfig =
  Name :: string

record NetworkConfig =
  PodSubnet :: string
  ServiceSubnet :: string

record HAConfig =
  HA_Enabled :: bool
  VIP :: string

record HarborConfig =
  Harbor_Username :: string
  Harbor_Password :: string
  Harbor_Insecure :: bool

record BGPPeerConfig =
  PeerAddress :: string
  PeerASN :: int

record BGPConfig =
  BGP_Enabled :: bool
  LocalASN :: int
  Peers :: "BGPPeerConfig list"
  LoadBalancerIPs :: "string list"

record HubbleConfig =
  Hubble_Enabled :: bool
  Hubble_Metrics_Enabled :: bool
  Hubble_UI_Enabled :: bool
  Hubble_UI_NodePort :: int

record LoadBalancerConfig =
  LB_Provider :: string
  LB_Mode :: string

record 'n ClusterSpec =
  Version :: string
  ImageRepository :: string
  Harbor :: HarborConfig
  Networking :: NetworkConfig
  HA :: HAConfig
  Hubble :: HubbleConfig
  LoadBalancer :: LoadBalancerConfig
  BGP :: BGPConfig
  GatewayAPI_Enabled :: bool
  Envoy_Enabled :: bool
  Nodes :: 'n

record 'n ClusterConfig =
  APIVersion :: string
  Kind :: string
  Metadata :: MetadataConfig
  Spec :: "'n ClusterSpec"

type_synonym Config = "NodeConfig list ClusterConfig"

section \<open>Formatting (fmt.Sprintf verbs, strings.Join)\<close>

definition digit :: "nat \<Rightarrow> char" where
  "digit d = ''0123456789'' ! d"

text \<open>\<open>%d\<close> of a non-negative number: its decimal digits, most significant first.\<close>

fun digits :: "nat \<Rightarrow> string" where
  "digits n = (if n < 10 then [digit n] else digits (n div 10) @ [digit (n mod 10)])"

declare digits.simps [simp del]

definition fmt_d :: "int \<Rightarrow> string" where
  "fmt_d i = (if i < 0 then CHR ''-'' # digits (nat (- i)) else digits (nat i))"


fun Join :: "string list \<Rightarrow> string \<Rightarrow> string" where
  "Join [] sep = []"
| "Join [x] sep = x"
| "Join (x # y # xs) sep = x @ sep @ Join (y # xs) sep"

section \<open>Immutable fields (ValidateImmutableFields)\<close>

text \<open>The messages of the four checks. In order: "the cluster name cannot be modified";
  "the Pod subnet cannot be modified (current: "; ", attempted change to: ";
  "the Service subnet cannot be modified (current: "; "the Kubernetes version cannot be
  modified through the update command, please use the upgrade command (current: ";
  "modification of immutable configuration detected:" followed by the first bullet.\<close>

definition msg_name_immutable :: string where
  "msg_name_immutable = [CHR 0xE9, CHR 0x9B, CHR 0x86, CHR 0xE7, CHR 0xBE, CHR 0xA4, CHR 0xE5, CHR 0x90, CHR 0x8D, CHR 0xE7, CHR 0xA7, CHR 0xB0, CHR 0xE4, CHR 0xB8, CHR 0x8D, CHR 0xE5, CHR 0x8F, CHR 0xAF, CHR 0xE4, CHR 0xBF, CHR 0xAE, CHR 0xE6, CHR 0x94, CHR 0xB9]"

definition msg_pod_immutable :: string where
  "msg_pod_immutable = ''Pod '' @ [CHR 0xE7, CHR 0xBD, CHR 0x91, CHR 0xE6, CHR 0xAE, CHR 0xB5, CHR 0xE4, CHR 0xB8, CHR 0x8D, CHR 0xE5, CHR 0x8F, CHR 0xAF, CHR 0xE4, CHR 0xBF, CHR 0xAE, CHR 0xE6, CHR 0x94, CHR 0xB9] @ '' ('' @ [CHR 0xE5, CHR 0xBD, CHR 0x93, CHR 0xE5, CHR 0x89, CHR 0x8D] @ '': ''"

definition msg_attempted :: string where
  "msg_attempted = '', '' @ [CHR 0xE5, CHR 0xB0, CHR 0x9D, CHR 0xE8, CHR 0xAF, CHR 0x95, CHR 0xE4, CHR 0xBF, CHR 0xAE, CHR 0xE6, CHR 0x94, CHR 0xB9, CHR 0xE4, CHR 0xB8, CHR 0xBA] @ '': ''"

definition msg_service_immutable :: string where
  "msg_service_immutable = ''Service '' @ [CHR 0xE7, CHR 0xBD, CHR 0x91, CHR 0xE6, CHR 0xAE, CHR 0xB5, CHR 0xE4, CHR 0xB8, CHR 0x8D, CHR 0xE5, CHR 0x8F, CHR 0xAF, CHR 0xE4, CHR 0xBF, CHR 0xAE, CHR 0xE6, CHR 0x94, CHR 0xB9] @ '' ('' @ [CHR 0xE5, CHR 0xBD, CHR 0x93, CHR 0xE5, CHR 0x89, CHR 0x8D] @ '': ''"

definition msg_version_immutable :: string where
  "msg_version_immutable = ''Kubernetes '' @ [CHR 0xE7, CHR 0x89, CHR 0x88, CHR 0xE6, CHR 0x9C, CHR 0xAC, CHR 0xE4, CHR 0xB8, CHR 0x8D, CHR 0xE5, CHR 0x8F, CHR 0xAF, CHR 0xE9, CHR 0x80, CHR 0x9A, CHR 0xE8, CHR 0xBF, CHR 0x87] @ '' update '' @ [CHR 0xE5, CHR 0x91, CHR 0xBD, CHR 0xE4, CHR 0xBB, CHR 0xA4, CHR 0xE4, CHR 0xBF, CHR 0xAE, CHR 0xE6, CHR 0x94, CHR 0xB9, CHR 0xEF, CHR 0xBC, CHR 0x8C, CHR 0xE8, CHR 0xAF, CHR 0xB7, CHR 0xE4, CHR 0xBD, CHR 0xBF, CHR 0xE7, CHR 0x94, CHR 0xA8] @ '' upgrade '' @ [CHR 0xE5, CHR 0x91, CHR 0xBD, CHR 0xE4, CHR 0xBB, CHR 0xA4] @ '' ('' @ [CHR 0xE5, CHR 0xBD, CHR 0x93, CHR 0xE5, CHR 0x89, CHR 0x8D] @ '': ''"

definition msg_immutable_header :: string where
  "msg_immutable_header = [CHR 0xE6, CHR 0xA3, CHR 0x80, CHR 0xE6, CHR 0xB5, CHR 0x8B, CHR 0xE5, CHR 0x88, CHR 0xB0, CHR 0xE4, CHR 0xB8, CHR 0x8D, CHR 0xE5, CHR 0x8F, CHR 0xAF, CHR 0xE5, CHR 0x8F, CHR 0x98, CHR 0xE9, CHR 0x85, CHR 0x8D, CHR 0xE7, CHR 0xBD, CHR 0xAE, CHR 0xE8, CHR 0xA2, CHR 0xAB, CHR 0xE4, CHR 0xBF, CHR 0xAE, CHR 0xE6, CHR 0x94, CHR 0xB9] @ '':'' @ [CHR 0x0A] @ ''  - ''"

definition bullet_sep :: string where
  "bullet_sep = [CHR 0x0A] @ ''  - ''"

definition name_violation :: "'a ClusterConfig \<Rightarrow> 'b ClusterConfig \<Rightarrow> string" where
  "name_violation oldCfg newCfg = msg_name_immutable"

definition pod_violation :: "'a ClusterConfig \<Rightarrow> 'b ClusterConfig \<Rightarrow> string" where
  "pod_violation oldCfg newCfg =
     msg_pod_immutable @ PodSubnet (Networking (Spec oldCfg)) @ msg_attempted
       @ PodSubnet (Networking (Spec newCfg)) @ '')''"

definition service_violation :: "'a ClusterConfig \<Rightarrow> 'b ClusterConfig \<Rightarrow> string" where
  "service_violation oldCfg newCfg =
     msg_service_immutable @ ServiceSubnet (Networking (Spec oldCfg)) @ msg_attempted
       @ ServiceSubnet (Networking (Spec newCfg)) @ '')''"

definition version_violation :: "'a ClusterConfig \<Rightarrow> 'b ClusterConfig \<Rightarrow> string" where
  "version_violation oldCfg newCfg =
     msg_version_immutable @ Version (Spec oldCfg) @ msg_attempted
       @ Version (Spec newCfg) @ '')''"

text \<open>The local slice \<open>errors\<close> of ValidateImmutableFields after the four checks.\<close>

definition immutable_errors :: "'a ClusterConfig \<Rightarrow> 'b ClusterConfig \<Rightarrow> string list" where
  "immutable_errors oldCfg newCfg =
     (if Name (Metadata oldCfg) \<noteq> Name (Metadata newCfg)
      then [name_violation oldCfg newCfg] else [])
   @ (if PodSubnet (Networking (Spec oldCfg)) \<noteq> PodSubnet (Networking (Spec newCfg))
      then [pod_violation oldCfg newCfg] else [])
   @ (if ServiceSubnet (Networking (Spec oldCfg)) \<noteq> ServiceSubnet (Networking (Spec newCfg))
      then [service_violation oldCfg newCfg] else [])
   @ (if Version (Spec oldCfg) \<noteq> Version (Spec newCfg)
      then [version_violation oldCfg newCfg] else [])"

text \<open>The returned error is its message; \<open>None\<close> is Go's \<open>nil\<close>.\<close>

definition ValidateImmutableFields :: "'a ClusterConfig \<Rightarrow> 'b ClusterConfig \<Rightarrow> string option" where
  "ValidateImmutableFields oldCfg newCfg =
     (let errors = immutable_errors oldCfg newCfg
      in if length errors > 0
         then Some (msg_immutable_header @ Join errors bullet_sep)
         else None)"

section \<open>Change detection (pkg/cluster/update.go)\<close>

record ConfigChange =
  Type :: string
  Description :: string
  OldValue :: string
  NewValue :: string
  AffectedComponent :: string
  RequiresRestart :: bool

text \<open>The texts used by detectBGPChanges and detectAllChanges. In order: "enable the BGP
  control plane"; "not configured"; "enabled"; "disabled"; "configure BGP AS number: ";
  "add BGP Peer "; "add LoadBalancer IP pool "; "modify the BGP AS number"; "update the BGP
  Peer configuration"; " Peer(s)" after a count; "update the LoadBalancer IP pool";
  " IP(s)" after a count; "update the Harbor credentials".\<close>

definition msg_enable_bgp :: string where
  "msg_enable_bgp = [CHR 0xE5, CHR 0x90, CHR 0xAF, CHR 0xE7, CHR 0x94, CHR 0xA8] @ '' BGP '' @ [CHR 0xE6, CHR 0x8E, CHR 0xA7, CHR 0xE5, CHR 0x88, CHR 0xB6, CHR 0xE5, CHR 0xB9, CHR 0xB3, CHR 0xE9, CHR 0x9D, CHR 0xA2]"

definition msg_unconfigured :: string where
  "msg_unconfigured = [CHR 0xE6, CHR 0x9C, CHR 0xAA, CHR 0xE9, CHR 0x85, CHR 0x8D, CHR 0xE7, CHR 0xBD, CHR 0xAE]"

definition msg_enabled :: string where
  "msg_enabled = [CHR 0xE5, CHR 0x90, CHR 0xAF, CHR 0xE7, CHR 0x94, CHR 0xA8]"

definition msg_disabled :: string where
  "msg_disabled = [CHR 0xE7, CHR 0xA6, CHR 0x81, CHR 0xE7, CHR 0x94, CHR 0xA8]"

definition msg_configure_asn :: string where
  "msg_configure_asn = [CHR 0xE9, CHR 0x85, CHR 0x8D, CHR 0xE7, CHR 0xBD, CHR 0xAE] @ '' BGP AS '' @ [CHR 0xE5, CHR 0x8F, CHR 0xB7] @ '': ''"

definition msg_add_peer :: string where
  "msg_add_peer = [CHR 0xE6, CHR 0xB7, CHR 0xBB, CHR 0xE5, CHR 0x8A, CHR 0xA0] @ '' BGP Peer ''"

definition msg_add_pool :: string where
  "msg_add_pool = [CHR 0xE6, CHR 0xB7, CHR 0xBB, CHR 0xE5, CHR 0x8A, CHR 0xA0] @ '' LoadBalancer IP '' @ [CHR 0xE6, CHR 0xB1, CHR 0xA0] @ '' ''"

definition msg_modify_asn :: string where
  "msg_modify_asn = [CHR 0xE4, CHR 0xBF, CHR 0xAE, CHR 0xE6, CHR 0x94, CHR 0xB9] @ '' BGP AS '' @ [CHR 0xE5, CHR 0x8F, CHR 0xB7]"

definition msg_update_peers :: string where
  "msg_update_peers = [CHR 0xE6, CHR 0x9B, CHR 0xB4, CHR 0xE6, CHR 0x96, CHR 0xB0] @ '' BGP Peer '' @ [CHR 0xE9, CHR 0x85, CHR 0x8D, CHR 0xE7, CHR 0xBD, CHR 0xAE]"

definition msg_count_peers :: string where
  "msg_count_peers = '' '' @ [CHR 0xE4, CHR 0xB8, CHR 0xAA] @ '' Peer''"

definition msg_update_pool :: string where
  "msg_update_pool = [CHR 0xE6, CHR 0x9B, CHR 0xB4, CHR 0xE6, CHR 0x96, CHR 0xB0] @ '' LoadBalancer IP '' @ [CHR 0xE6, CHR 0xB1, CHR 0xA0]"

definition msg_count_ips :: string where
  "msg_count_ips = '' '' @ [CHR 0xE4, CHR 0xB8, CHR 0xAA] @ '' IP''"

definition msg_update_harbor :: string where
  "msg_update_harbor = [CHR 0xE6, CHR 0x9B, CHR 0xB4, CHR 0xE6, CHR 0x96, CHR 0xB0] @ '' Harbor '' @ [CHR 0xE8, CHR 0xAE, CHR 0xA4, CHR 0xE8, CHR 0xAF, CHR 0x81, CHR 0xE4, CHR 0xBF, CHR 0xA1, CHR 0xE6, CHR 0x81, CHR 0xAF]"

definition peer_added :: "nat \<Rightarrow> BGPPeerConfig \<Rightarrow> ConfigChange" where
  "peer_added i peer =
     \<lparr>Type = ''BGP'',
      Description = msg_add_peer @ fmt_d (int i + 1) @ '': '' @ PeerAddress peer
                      @ '' (AS '' @ fmt_d (PeerASN peer) @ '')'',
      OldValue = [],
      NewValue = PeerAddress peer @ ''/'' @ fmt_d (PeerASN peer),
      AffectedComponent = ''BGP Peering'',
      RequiresRestart = False\<rparr>"

definition pool_added :: "nat \<Rightarrow> string \<Rightarrow> ConfigChange" where
  "pool_added i ip =
     \<lparr>Type = ''BGP'',
      Description = msg_add_pool @ fmt_d (int i + 1) @ '': '' @ ip,
      OldValue = [],
      NewValue = ip,
      AffectedComponent = ''IP Pool'',
      RequiresRestart = False\<rparr>"

text \<open>The changes appended when BGP is switched on. The source writes this block twice,
  for a missing old configuration and for an old configuration with BGP disabled; the
  two copies differ in the old value of the first change only.\<close>

definition bgp_enable_changes :: "string \<Rightarrow> BGPConfig \<Rightarrow> ConfigChange list" where
  "bgp_enable_changes oldValue bgp =
     [\<lparr>Type = ''BGP'', Description = msg_enable_bgp, OldValue = oldValue,
       NewValue = msg_enabled, AffectedComponent = ''Cilium'', RequiresRestart = True\<rparr>,
      \<lparr>Type = ''BGP'', Description = msg_configure_asn @ fmt_d (LocalASN bgp), OldValue = [],
       NewValue = fmt_d (LocalASN bgp), AffectedComponent = ''Cilium'',
       RequiresRestart = False\<rparr>]
     @ map (\<lambda>(i, peer). peer_added i peer) (enumerate 0 (Peers bgp))
     @ map (\<lambda>(i, ip). pool_added i ip) (enumerate 0 (LoadBalancerIPs bgp))"

definition asn_change :: "BGPConfig \<Rightarrow> BGPConfig \<Rightarrow> ConfigChange" where
  "asn_change old new =
     \<lparr>Type = ''BGP'', Description = msg_modify_asn,
      OldValue = fmt_d (LocalASN old), NewValue = fmt_d (LocalASN new),
      AffectedComponent = ''BGP Peering'', RequiresRestart = False\<rparr>"

definition peers_change :: "BGPConfig \<Rightarrow> BGPConfig \<Rightarrow> ConfigChange" where
  "peers_change old new =
     \<lparr>Type = ''BGP'', Description = msg_update_peers,
      OldValue = fmt_d (int (length (Peers old))) @ msg_count_peers,
      NewValue = fmt_d (int (length (Peers new))) @ msg_count_peers,
      AffectedComponent = ''BGP Peering'', RequiresRestart = False\<rparr>"

definition pool_change :: "BGPConfig \<Rightarrow> BGPConfig \<Rightarrow> ConfigChange" where
  "pool_change old new =
     \<lparr>Type = ''BGP'', Description = msg_update_pool,
      OldValue = fmt_d (int (length (LoadBalancerIPs old))) @ msg_count_ips,
      NewValue = fmt_d (int (length (LoadBalancerIPs new))) @ msg_count_ips,
      AffectedComponent = ''IP Pool'', RequiresRestart = False\<rparr>"

text \<open>\<open>oldCfg\<close> is a pointer that UpdateCluster sets to nil when loading fails.\<close>

definition detectBGPChanges ::
  "'a ClusterConfig option \<Rightarrow> 'b ClusterConfig \<Rightarrow> ConfigChange list" where
  "detectBGPChanges oldCfg newCfg =
     (case oldCfg of
        None \<Rightarrow>
          (if BGP_Enabled (BGP (Spec newCfg))
           then bgp_enable_changes msg_unconfigured (BGP (Spec newCfg)) else [])
      | Some old \<Rightarrow>
          (if \<not> BGP_Enabled (BGP (Spec old)) \<and> BGP_Enabled (BGP (Spec newCfg))
           then bgp_enable_changes msg_disabled (BGP (Spec newCfg))
           else if BGP_Enabled (BGP (Spec old)) \<and> BGP_Enabled (BGP (Spec newCfg))
           then (if LocalASN (BGP (Spec old)) \<noteq> LocalASN (BGP (Spec newCfg))
                 then [asn_change (BGP (Spec old)) (BGP (Spec newCfg))] else [])
              @ (if length (Peers (BGP (Spec old))) \<noteq> length (Peers (BGP (Spec newCfg)))
                 then [peers_change (BGP (Spec old)) (BGP (Spec newCfg))] else [])
              @ (if length (LoadBalancerIPs (BGP (Spec old)))
                      \<noteq> length (LoadBalancerIPs (BGP (Spec newCfg)))
                 then [pool_change (BGP (Spec old)) (BGP (Spec newCfg))] else [])
           else []))"

definition harbor_change :: ConfigChange where
  "harbor_change =
     \<lparr>Type = ''Harbor'', Description = msg_update_harbor, OldValue = [], NewValue = [],
      AffectedComponent = ''Containerd'', RequiresRestart = False\<rparr>"

definition detectAllChanges ::
  "'a ClusterConfig option \<Rightarrow> 'b ClusterConfig \<Rightarrow> ConfigChange list" where
  "detectAllChanges oldCfg newCfg =
     (case oldCfg of
        None \<Rightarrow> []
      | Some old \<Rightarrow>
          detectBGPChanges (Some old) newCfg
          @ (if Harbor_Username (Harbor (Spec old)) \<noteq> Harbor_Username (Harbor (Spec newCfg))
                \<or> Harbor_Password (Harbor (Spec old)) \<noteq> Harbor_Password (Harbor (Spec newCfg))
             then [harbor_change] else []))"

section \<open>The world: executed commands, prompts, and the store of node arrays\<close>

text \<open>
  Everything the deployer does to its surroundings is appended to a trace of events, and
  everything the surroundings answer comes from an environment of functions of the trace
  so far. The store maps the address of a backing array to its contents; a slice of nodes
  is an address and a length.
\<close>

type_synonym command = string

datatype auth = PublicKeys string | PasswordAuth string

datatype event =
    Exec command
  | Dial string int string auth
  | CloseConn
  | Sleep nat
  | Confirmation
  | DangerousConfirmation
  | JoinInfoIssued

record slice =
  base :: nat
  len :: nat

record world =
  trace :: "event list"
  heap :: "nat \<Rightarrow> NodeConfig list"

record JoinCommand =
  APIServerEndpoint :: string
  Token :: string
  CertificateKey :: string
  CACertHash :: string

datatype ssh_outcome = SessionFailed string | RunFailed string string | RunOk string

datatype error =
    ExecFailed string
  | SessionError string
  | LabelCheckFailed error
  | NotDeployerManaged
  | ConfigFetchFailed error
  | ConfigParseFailed string
  | ClusterVerifyFailed error
  | ConfigValidationFailed
  | BGPNotEnabled
  | MissingChart string
  | HelmInstallFailed error
  | ControllerNotReady error
  | SpeakerNotReady error
  | LoadBalancerIPsEmpty
  | IPAddressPoolFailed error
  | BGPPeerFailed nat error
  | BGPAdvertisementFailed error
  | VerifyIPAddressPoolFailed error
  | VerifyBGPPeerFailed error
  | VerifyBGPAdvertisementFailed error
  | L2AdvertisementFailed error
  | MarshalFailed string
  | TempFileFailed error
  | PatchFailed error
  | ConfigFileFailed error
  | ApplyConfigMapFailed error
  | UserCancelled
  | ResetFailed error
  | KubeadmInitFailed error
  | ReadKeyFailed string
  | ParseKeyFailed string
  | NoCredentials
  | DialFailed string
  | AllMethodsFailed
  | ReconnectFailed error
  | RetriesExhausted int "error option"
  | IndexOutOfRange
  | JoinInfoFailed string
  | APIVersionEmpty
  | KindEmpty
  | NameEmpty
  | NameFormat
  | VersionEmpty
  | VersionFormat
  | ImageRepositoryEmpty
  | PodSubnetEmpty
  | PodSubnetFormat string
  | ServiceSubnetEmpty
  | ServiceSubnetFormat string
  | SubnetsOverlap
  | HATooFewMasters int
  | HAVipEmpty
  | HAVipFormat string

text \<open>
  The environment. \<open>local_run\<close>: the combined output of a local shell command and
  the error text when it failed. \<open>ssh_run\<close>: what a command over an SSH connection,
  named by its handle, does. \<open>typed\<close>: the token \<open>fmt.Scanln\<close> reads at a prompt (empty when
  the user only presses Enter). \<open>yaml_unmarshal\<close>, \<open>yaml_marshal\<close>: the YAML
  library. \<open>clock\<close>: the current time in RFC 3339. \<open>getwd\<close>: the working
  directory (empty when \<open>os.Getwd\<close> fails); \<open>path_join\<close>: \<open>filepath.Join\<close> of
  two elements; \<open>stat\<close>: whether \<open>os.Stat\<close> of a path succeeds.
  \<open>read_file\<close>, \<open>parse_key\<close>, \<open>dial\<close>,
  \<open>expand\<close>: the file system, the key parser, the SSH transport (the text of the
  error when a dial fails) and home-directory expansion. \<open>ParseIP\<close>,
  \<open>ParseCIDR\<close>: whether the \<open>net\<close> package parses the text;
  \<open>cidr_overlap\<close>: whether either of two parsed networks contains the address of
  the other. \<open>join_info\<close>: the outcome of issuing the join credentials.
\<close>

record env =
  local_run :: "event list \<Rightarrow> command \<Rightarrow> string \<times> string option"
  ssh_run :: "event list \<Rightarrow> nat \<Rightarrow> command \<Rightarrow> ssh_outcome"
  typed :: "event list \<Rightarrow> string"
  yaml_unmarshal :: "string \<Rightarrow> string + Config"
  yaml_marshal :: "Config \<Rightarrow> string + string"
  clock :: "event list \<Rightarrow> string"
  getwd :: string
  path_join :: "string \<Rightarrow> string \<Rightarrow> string"
  stat :: "event list \<Rightarrow> string \<Rightarrow> bool"
  read_file :: "string \<Rightarrow> string + string"
  parse_key :: "string \<Rightarrow> string + string"
  dial :: "event list \<Rightarrow> string \<Rightarrow> int \<Rightarrow> string \<Rightarrow> auth \<Rightarrow> string option"
  expand :: "string \<Rightarrow> string"
  ParseIP :: "string \<Rightarrow> bool"
  ParseCIDR :: "string \<Rightarrow> bool"
  cidr_overlap :: "string \<Rightarrow> string \<Rightarrow> bool"
  join_info :: "event list \<Rightarrow> string \<Rightarrow> string + JoinCommand"

definition log :: "event \<Rightarrow> world \<Rightarrow> world" where
  "log e w = w\<lparr>trace := trace w @ [e]\<rparr>"

subsection \<open>strings.TrimSpace, strings.Contains, strings.ReplaceAll, strings.Split\<close>

text \<open>The number of bytes of a leading white-space rune (\<open>unicode.IsSpace\<close> on the
  UTF-8 encoding), or 0.\<close>

definition leading_space :: "string \<Rightarrow> nat" where
  "leading_space s =
     (case s of
        [] \<Rightarrow> 0
      | c # cs \<Rightarrow>
         (if c \<in> {CHR 0x09, CHR 0x0A, CHR 0x0B, CHR 0x0C, CHR 0x0D, CHR 0x20} then 1
          else if c = CHR 0xC2 \<and> (take 1 cs = [CHR 0x85] \<or> take 1 cs = [CHR 0xA0]) then 2
          else if c = CHR 0xE1 \<and> take 2 cs = [CHR 0x9A, CHR 0x80] then 3
          else if c = CHR 0xE2 \<and> take 1 cs = [CHR 0x80]
                  \<and> (case drop 1 cs of [] \<Rightarrow> False
                       | d # _ \<Rightarrow> (0x80 \<le> (of_char d :: nat) \<and> (of_char d :: nat) \<le> 0x8A)
                                  \<or> d = CHR 0xA8 \<or> d = CHR 0xA9 \<or> d = CHR 0xAF) then 3
          else if c = CHR 0xE2 \<and> take 2 cs = [CHR 0x81, CHR 0x9F] then 3
          else if c = CHR 0xE3 \<and> take 2 cs = [CHR 0x80, CHR 0x80] then 3
          else 0))"

text \<open>The same for a trailing rune, read on the reversed string.\<close>

definition trailing_space :: "string \<Rightarrow> nat" where
  "trailing_space r =
     (case r of
        [] \<Rightarrow> 0
      | c # cs \<Rightarrow>
         (if c \<in> {CHR 0x09, CHR 0x0A, CHR 0x0B, CHR 0x0C, CHR 0x0D, CHR 0x20} then 1
          else if (c = CHR 0x85 \<or> c = CHR 0xA0) \<and> take 1 cs = [CHR 0xC2] then 2
          else if c = CHR 0x80 \<and> take 2 cs = [CHR 0x9A, CHR 0xE1] then 3
          else if ((0x80 \<le> (of_char c :: nat) \<and> (of_char c :: nat) \<le> 0x8A)
                    \<or> c = CHR 0xA8 \<or> c = CHR 0xA9 \<or> c = CHR 0xAF)
                  \<and> take 2 cs = [CHR 0x80, CHR 0xE2] then 3
          else if c = CHR 0x9F \<and> take 2 cs = [CHR 0x81, CHR 0xE2] then 3
          else if c = CHR 0x80 \<and> take 2 cs = [CHR 0x80, CHR 0xE3] then 3
          else 0))"

fun strip :: "(string \<Rightarrow> nat) \<Rightarrow> nat \<Rightarrow> string \<Rightarrow> string" where
  "strip f 0 s = s"
| "strip f (Suc k) s = (if f s = 0 then s else strip f k (drop (f s) s))"

text \<open>Each round removes at least one byte, so \<open>length s\<close> rounds are enough.\<close>

definition TrimSpace :: "string \<Rightarrow> string" where
  "TrimSpace s =
     (let l = strip leading_space (length s) s
      in rev (strip trailing_space (length l) (rev l)))"


text \<open>\<open>strings.ReplaceAll\<close> for a pattern of one byte, the only use in the source.\<close>

definition ReplaceAll :: "string \<Rightarrow> char \<Rightarrow> string \<Rightarrow> string" where
  "ReplaceAll s old new = concat (map (\<lambda>c. if c = old then new else [c]) s)"

text \<open>\<open>strings.Split(s, "\n")\<close>.\<close>

fun Split_lines :: "string \<Rightarrow> string list" where
  "Split_lines [] = [[]]"
| "Split_lines (c # cs) =
     (if c = CHR 0x0A then [] # Split_lines cs
      else (case Split_lines cs of [] \<Rightarrow> [[c]] | l # ls \<Rightarrow> (c # l) # ls))"

subsection \<open>Executors (pkg/executor/local.go, pkg/executor/ssh.go)\<close>

text \<open>The executor interface: a command in, output and error out. The two texts are
  "command execution failed: " and, after a line break, "standard error: "; the third is
  "creating the SSH session failed: ".\<close>

type_synonym executor = "world \<Rightarrow> command \<Rightarrow> (string \<times> error option) \<times> world"

definition msg_exec_failed :: string where
  "msg_exec_failed = [CHR 0xE5, CHR 0x91, CHR 0xBD, CHR 0xE4, CHR 0xBB, CHR 0xA4, CHR 0xE6, CHR 0x89, CHR 0xA7, CHR 0xE8, CHR 0xA1, CHR 0x8C, CHR 0xE5, CHR 0xA4, CHR 0xB1, CHR 0xE8, CHR 0xB4, CHR 0xA5] @ '': ''"

definition msg_stderr :: string where
  "msg_stderr = [CHR 0x0A, CHR 0xE6, CHR 0xA0, CHR 0x87, CHR 0xE5, CHR 0x87, CHR 0x86, CHR 0xE9, CHR 0x94, CHR 0x99, CHR 0xE8, CHR 0xAF, CHR 0xAF] @ '': ''"

definition msg_session_failed :: string where
  "msg_session_failed = [CHR 0xE5, CHR 0x88, CHR 0x9B, CHR 0xE5, CHR 0xBB, CHR 0xBA] @ '' SSH session '' @ [CHR 0xE5, CHR 0xA4, CHR 0xB1, CHR 0xE8, CHR 0xB4, CHR 0xA5] @ '': ''"

definition LocalExecute :: "env \<Rightarrow> executor" where
  "LocalExecute env w command =
     (case local_run env (trace w) command of
        (output, Some err) \<Rightarrow>
          ((output, Some (ExecFailed (msg_exec_failed @ err @ msg_stderr @ output))),
           log (Exec command) w)
      | (output, None) \<Rightarrow> ((TrimSpace output, None), log (Exec command) w))"

record SSHClient =
  Host :: string
  Port :: int
  User :: string
  conn :: nat
  orig_keyFile :: string
  orig_password :: string

text \<open>Every constructor of the source sets the connection of an \<open>SSHClient\<close>, so
  the field is a handle here and never nil. No session means that the command did not
  run: only a command that ran is an event.\<close>

definition SSHExecute :: "env \<Rightarrow> SSHClient \<Rightarrow> executor" where
  "SSHExecute env c w command =
     (case ssh_run env (trace w) (conn c) command of
        SessionFailed err \<Rightarrow> (([], Some (SessionError (msg_session_failed @ err))), w)
      | RunFailed err stderr \<Rightarrow>
          (([], Some (ExecFailed (msg_exec_failed @ err @ msg_stderr @ stderr))),
           log (Exec command) w)
      | RunOk stdout \<Rightarrow> ((stdout, None), log (Exec command) w))"

subsection \<open>Prompts (pkg/ui)\<close>

definition WaitForConfirmation :: "env \<Rightarrow> world \<Rightarrow> bool \<times> world" where
  "WaitForConfirmation env w =
     (let response = typed env (trace w)
      in (if response = [] then True
          else response = ''y'' \<or> response = ''Y'' \<or> response = ''yes'' \<or> response = ''Yes'',
          log Confirmation w))"

definition WaitForDangerousConfirmation :: "env \<Rightarrow> world \<Rightarrow> bool \<times> world" where
  "WaitForDangerousConfirmation env w =
     (let response = typed env (trace w)
      in (response = ''yes'', log DangerousConfirmation w))"

section \<open>Persisted configuration (pkg/cluster/config_store.go)\<close>

definition DeployerLabel :: string where
  "DeployerLabel = ''k8s-deployer.stormdragon.io/managed''"

definition DeployerVersion :: string where
  "DeployerVersion = ''k8s-deployer.stormdragon.io/version''"

definition DeployerConfigMap :: string where
  "DeployerConfigMap = ''k8s-deployer-config''"

definition DeployerSecret :: string where
  "DeployerSecret = ''k8s-deployer-secret''"

definition DeployerNamespace :: string where
  "DeployerNamespace = ''kube-system''"

definition DeployerToolVersion :: string where
  "DeployerToolVersion = ''v1.0.0''"

subsection \<open>Slices of nodes in the store\<close>

definition deref_nodes :: "(nat \<Rightarrow> NodeConfig list) \<Rightarrow> slice \<Rightarrow> NodeConfig list" where
  "deref_nodes h s = take (len s) (h (base s))"

text \<open>The configuration a pointer to a \<open>ClusterConfig\<close> denotes in a store: every
  field as it is, the node slice replaced by the elements it points to.\<close>

definition deref :: "(nat \<Rightarrow> NodeConfig list) \<Rightarrow> slice ClusterConfig \<Rightarrow> Config" where
  "deref h c =
     \<lparr>APIVersion = APIVersion c, Kind = Kind c, Metadata = Metadata c,
      Spec = \<lparr>Version = Version (Spec c), ImageRepository = ImageRepository (Spec c),
               Harbor = Harbor (Spec c), Networking = Networking (Spec c), HA = HA (Spec c),
               Hubble = Hubble (Spec c), LoadBalancer = LoadBalancer (Spec c),
               BGP = BGP (Spec c), GatewayAPI_Enabled = GatewayAPI_Enabled (Spec c),
               Envoy_Enabled = Envoy_Enabled (Spec c),
               Nodes = deref_nodes h (Nodes (Spec c))\<rparr>\<rparr>"

definition clear_password :: "NodeConfig \<Rightarrow> NodeConfig" where
  "clear_password node = node\<lparr>SSH := (SSH node)\<lparr>SSH_Password := []\<rparr>\<rparr>"

text \<open>\<open>s[i].SSH.Password = ""\<close>: a write through the slice into its backing array.\<close>

definition store_clear :: "slice \<Rightarrow> nat \<Rightarrow> (nat \<Rightarrow> NodeConfig list) \<Rightarrow> (nat \<Rightarrow> NodeConfig list)" where
  "store_clear s i h = h(base s := (h (base s))[i := clear_password (h (base s) ! i)])"

text \<open>
  The first lines of saveConfigToConfigMap and of UpdateClusterConfigMap, which are the
  same:
  \<^verbatim>\<open>
  cfgCopy := *cfg
  cfgCopy.Spec.Harbor.Username = ""
  cfgCopy.Spec.Harbor.Password = ""
  for i := range cfgCopy.Spec.Nodes {
      cfgCopy.Spec.Nodes[i].SSH.Password = ""
  }
  \<close>
  The assignment copies the struct, and with it the slice header of the nodes, not the
  backing array.
\<close>

definition sanitized_copy ::
  "(nat \<Rightarrow> NodeConfig list) \<Rightarrow> slice ClusterConfig
     \<Rightarrow> slice ClusterConfig \<times> (nat \<Rightarrow> NodeConfig list)" where
  "sanitized_copy h cfg =
     (let cfgCopy = cfg;
          cfgCopy = cfgCopy\<lparr>Spec := (Spec cfgCopy)\<lparr>Harbor :=
                      (Harbor (Spec cfgCopy))\<lparr>Harbor_Username := []\<rparr>\<rparr>\<rparr>;
          cfgCopy = cfgCopy\<lparr>Spec := (Spec cfgCopy)\<lparr>Harbor :=
                      (Harbor (Spec cfgCopy))\<lparr>Harbor_Password := []\<rparr>\<rparr>\<rparr>;
          h' = fold (store_clear (Nodes (Spec cfgCopy))) [0 ..< len (Nodes (Spec cfgCopy))] h
      in (cfgCopy, h'))"

text \<open>What \<open>yaml.Marshal(&cfgCopy)\<close> is given: the copy, read in the store after the
  loop.\<close>

definition payload :: "(nat \<Rightarrow> NodeConfig list) \<Rightarrow> slice ClusterConfig \<Rightarrow> Config" where
  "payload h cfg = (case sanitized_copy h cfg of (cfgCopy, h') \<Rightarrow> deref h' cfgCopy)"

definition indentYAML :: "string \<Rightarrow> nat \<Rightarrow> string" where
  "indentYAML content spaces =
     Join (map (\<lambda>line. if line \<noteq> [] then replicate spaces CHR '' '' @ line else [])
               (Split_lines content)) [CHR 0x0A]"

definition configMapYAML :: "string \<Rightarrow> string \<Rightarrow> string \<Rightarrow> string" where
  "configMapYAML clusterName now indentedData =
     ''apiVersion: v1'' @ [CHR 0x0A] @ ''kind: ConfigMap'' @ [CHR 0x0A] @ ''metadata:'' @ [CHR 0x0A] @ ''  name: '' @ DeployerConfigMap
     @ [CHR 0x0A] @ ''  namespace: '' @ DeployerNamespace
     @ [CHR 0x0A] @ ''  labels:'' @ [CHR 0x0A] @ ''    app: k8s-deployer'' @ [CHR 0x0A] @ ''    cluster: '' @ clusterName
     @ [CHR 0x0A] @ ''    '' @ DeployerLabel @ '': '' @ [CHR 0x22] @ ''true'' @ [CHR 0x22, CHR 0x0A] @ ''    '' @ DeployerVersion @ '': ''
     @ DeployerToolVersion
     @ [CHR 0x0A] @ ''  annotations:'' @ [CHR 0x0A] @ ''    k8s-deployer.stormdragon.io/deployed-at: '' @ [CHR 0x22] @ now
     @ [CHR 0x22, CHR 0x0A] @ ''    k8s-deployer.stormdragon.io/deployed-by: '' @ [CHR 0x22] @ ''k8s-deployer'' @ [CHR 0x22, CHR 0x0A] @ ''data:'' @ [CHR 0x0A] @ ''  cluster.yaml: |'' @ [CHR 0x0A]
     @ indentedData"

definition saveConfigToConfigMap ::
  "env \<Rightarrow> executor \<Rightarrow> world \<Rightarrow> slice ClusterConfig \<Rightarrow> error option \<times> world" where
  "saveConfigToConfigMap env client w cfg =
     (case sanitized_copy (heap w) cfg of (cfgCopy, h') \<Rightarrow>
      (let w0 = w\<lparr>heap := h'\<rparr> in
      (case yaml_marshal env (deref h' cfgCopy) of
        Inl err \<Rightarrow> (Some (MarshalFailed err), w0)
      | Inr data \<Rightarrow>
         (let indentedData = indentYAML data 4;
              now = clock env (trace w0);
              cmd = ''cat > /tmp/deployer-config.yaml << '' @ [CHR 0x27] @ ''EOF'' @ [CHR 0x27, CHR 0x0A]
                    @ configMapYAML (Name (Metadata cfg)) now indentedData @ [CHR 0x0A] @ ''EOF''
          in case client w0 cmd of
               ((_, Some err), w1) \<Rightarrow> (Some (ConfigFileFailed err), w1)
             | ((_, None), w1) \<Rightarrow>
                 (case client w1 ''kubectl apply -f /tmp/deployer-config.yaml'' of
                    ((_, Some err), w2) \<Rightarrow> (Some (ApplyConfigMapFailed err), w2)
                  | ((_, None), w2) \<Rightarrow> (None, w2))))))"

definition tmpFile :: string where
  "tmpFile = ''$env:TEMP'' @ [CHR 0x5C] @ ''k8s-deployer-patch.json''"

definition removeCmd :: string where
  "removeCmd = ''Remove-Item -Path '' @ tmpFile @ '' -ErrorAction SilentlyContinue''"

text \<open>The three commands of UpdateClusterConfigMap: the write of the patch file (the YAML
  escaped for JSON, the whole escaped for a PowerShell here-string), the patch of the
  ConfigMap, and the removal of the file.\<close>

definition patchData :: "string \<Rightarrow> string \<Rightarrow> string" where
  "patchData data now =
     (let escapedYAML = ReplaceAll data (CHR 0x22) [CHR 0x5C, CHR 0x22];
          escapedYAML = ReplaceAll escapedYAML (CHR 0x0A) [CHR 0x5C, CHR ''n'']
      in ''{'' @ [CHR 0x22] @ ''data'' @ [CHR 0x22] @ '': {'' @ [CHR 0x22] @ ''cluster.yaml'' @ [CHR 0x22] @ '': '' @ [CHR 0x22] @ escapedYAML
         @ [CHR 0x22] @ ''}, '' @ [CHR 0x22] @ ''metadata'' @ [CHR 0x22] @ '': {'' @ [CHR 0x22] @ ''annotations'' @ [CHR 0x22] @ '': {'' @ [CHR 0x22] @ ''k8s-deployer.stormdragon.io/updated-at'' @ [CHR 0x22] @ '': '' @ [CHR 0x22]
         @ now @ [CHR 0x22] @ ''}}}'')"

definition writeCmd :: "string \<Rightarrow> string \<Rightarrow> string" where
  "writeCmd data now =
     (let escapedPatch = ReplaceAll (patchData data now) (CHR 0x27) [CHR 0x27, CHR 0x27]
      in ''@'' @ [CHR 0x27, CHR 0x0A] @ escapedPatch @ [CHR 0x0A, CHR 0x27] @ ''@ | Out-File -FilePath '' @ tmpFile
         @ '' -Encoding UTF8 -NoNewline'')"

definition patchCmd :: string where
  "patchCmd = ''kubectl patch configmap '' @ DeployerConfigMap @ '' -n '' @ DeployerNamespace
     @ '' --type=merge --patch-file='' @ tmpFile"

definition UpdateClusterConfigMap ::
  "env \<Rightarrow> executor \<Rightarrow> world \<Rightarrow> slice ClusterConfig \<Rightarrow> error option \<times> world" where
  "UpdateClusterConfigMap env client w cfg =
     (case sanitized_copy (heap w) cfg of (cfgCopy, h') \<Rightarrow>
      (let w0 = w\<lparr>heap := h'\<rparr> in
      (case yaml_marshal env (deref h' cfgCopy) of
        Inl err \<Rightarrow> (Some (MarshalFailed err), w0)
      | Inr data \<Rightarrow>
         (case client w0 (writeCmd data (clock env (trace w0))) of
            ((_, Some err), w1) \<Rightarrow> (Some (TempFileFailed err), w1)
          | ((_, None), w1) \<Rightarrow>
              (case client w1 patchCmd of
                 ((_, Some err), w2) \<Rightarrow> (Some (PatchFailed err), snd (client w2 removeCmd))
               | ((_, None), w2) \<Rightarrow> (None, snd (client w2 removeCmd)))))))"

definition labelCheckCmd :: string where
  "labelCheckCmd = ''kubectl get nodes -l '' @ DeployerLabel @ ''=true --no-headers 2>/dev/null''"

definition verifyDeployerManaged :: "executor \<Rightarrow> world \<Rightarrow> error option \<times> world" where
  "verifyDeployerManaged client w =
     (case client w labelCheckCmd of
        ((_, Some err), w1) \<Rightarrow> (Some (LabelCheckFailed err), w1)
      | ((output, None), w1) \<Rightarrow>
          (if TrimSpace output = [] then (Some NotDeployerManaged, w1) else (None, w1)))"

definition secretCmd :: "string \<Rightarrow> string" where
  "secretCmd key = ''kubectl get secret '' @ DeployerSecret @ '' -n '' @ DeployerNamespace
     @ '' -o jsonpath='' @ [CHR 0x27] @ ''{.data.'' @ key @ ''}'' @ [CHR 0x27] @ '' 2>/dev/null | base64 -d''"

definition loadSensitiveInfo :: "executor \<Rightarrow> world \<Rightarrow> Config \<Rightarrow> Config \<times> world" where
  "loadSensitiveInfo client w cfg =
     (case client w (secretCmd ''harbor-username'') of ((username, err1), w1) \<Rightarrow>
      let cfg1 = (if err1 = None \<and> username \<noteq> []
                  then cfg\<lparr>Spec := (Spec cfg)\<lparr>Harbor :=
                         (Harbor (Spec cfg))\<lparr>Harbor_Username := username\<rparr>\<rparr>\<rparr>
                  else cfg)
      in case client w1 (secretCmd ''harbor-password'') of ((password, err2), w2) \<Rightarrow>
      let cfg2 = (if err2 = None \<and> password \<noteq> []
                  then cfg1\<lparr>Spec := (Spec cfg1)\<lparr>Harbor :=
                         (Harbor (Spec cfg1))\<lparr>Harbor_Password := password\<rparr>\<rparr>\<rparr>
                  else cfg1)
      in (cfg2, w2))"

definition getConfigCmd :: string where
  "getConfigCmd = ''kubectl get configmap '' @ DeployerConfigMap @ '' -n '' @ DeployerNamespace
     @ '' -o jsonpath='' @ [CHR 0x27] @ ''{.data.cluster'' @ [CHR 0x5C] @ ''.yaml}'' @ [CHR 0x27]"

definition LoadClusterConfig ::
  "env \<Rightarrow> executor \<Rightarrow> world \<Rightarrow> string \<Rightarrow> (error + Config) \<times> world" where
  "LoadClusterConfig env client w clusterName =
     (case verifyDeployerManaged client w of
        (Some err, w1) \<Rightarrow> (Inl err, w1)
      | (None, w1) \<Rightarrow>
         (case client w1 getConfigCmd of
            ((_, Some err), w2) \<Rightarrow> (Inl (ConfigFetchFailed err), w2)
          | ((output, None), w2) \<Rightarrow>
             (case yaml_unmarshal env output of
                Inl err \<Rightarrow> (Inl (ConfigParseFailed err), w2)
              | Inr cfg \<Rightarrow>
                 (case loadSensitiveInfo client w2 cfg of (cfg', w3) \<Rightarrow> (Inr cfg', w3)))))"

section \<open>Reconciliation (pkg/cluster/update.go)\<close>

text \<open>
  The package manager of the deployer (package packages): the directory
  \<open>packages\<close> under the working directory, and the files expected in it.
\<close>

record Manager =
  PackageDir :: string
  K8sVersion :: string

definition NewManager :: "env \<Rightarrow> Manager" where
  "NewManager env = \<lparr>PackageDir = path_join env (getwd env) ''packages'', K8sVersion = ''v1.34.2''\<rparr>"

definition GetPackagePath :: "env \<Rightarrow> Manager \<Rightarrow> string \<Rightarrow> string" where
  "GetPackagePath env m pkgName =
     (case (if pkgName = ''containerd'' then Some ''containerd/containerd-2.2.0-linux-amd64.tar.gz''
            else if pkgName = ''runc'' then Some ''containerd/runc.amd64''
            else if pkgName = ''cni-plugins'' then Some ''containerd/cni-plugins-linux-amd64-v1.8.0.tgz''
            else if pkgName = ''kubectl'' then Some (''kubernetes/'' @ K8sVersion m @ ''/kubectl'')
            else if pkgName = ''kubeadm'' then Some (''kubernetes/'' @ K8sVersion m @ ''/kubeadm'')
            else if pkgName = ''kubelet'' then Some (''kubernetes/'' @ K8sVersion m @ ''/kubelet'')
            else if pkgName = ''helm'' then Some ''helm/linux-amd64/helm''
            else if pkgName = ''cilium-chart'' then Some ''cilium/cilium-1.18.4.tgz''
            else if pkgName = ''metallb-chart'' then Some ''metallb/metallb-0.15.2.tgz''
            else None) of
        None \<Rightarrow> []
      | Some relPath \<Rightarrow> path_join env (PackageDir m) relPath)"

definition Exists :: "env \<Rightarrow> event list \<Rightarrow> Manager \<Rightarrow> string \<Rightarrow> bool" where
  "Exists env t m pkgName =
     (let path = GetPackagePath env m pkgName
      in if path = [] then False else stat env t path)"

text \<open>parseImageRegistry (pkg/cluster/cilium.go) removes a leading protocol.\<close>

definition parseImageRegistry :: "string \<Rightarrow> string" where
  "parseImageRegistry imageRepo =
     (if length imageRepo > 7 \<and> take 7 imageRepo = ''http://'' then drop 7 imageRepo
      else if length imageRepo > 8 \<and> take 8 imageRepo = ''https://'' then drop 8 imageRepo
      else imageRepo)"

text \<open>
  The installation of MetalLB (package cluster: InstallMetalLB, ConfigureMetalLBBGP). The
  progress lines it prints are not part of the model; every command it runs and the
  five-second sleep are. deployMetalLBHelm returns the error "the MetalLB Helm chart is
  missing" before any command when the chart file is not there.
\<close>

definition installCmd :: "string \<Rightarrow> string \<Rightarrow> string" where
  "installCmd chartPath imageRegistry =
     ''helm install metallb '' @ chartPath
     @ '' --namespace metallb-system --create-namespace''
     @ '' --set controller.image.registry='' @ imageRegistry
     @ '' --set controller.image.repository=metallb-controller''
     @ '' --set speaker.image.registry='' @ imageRegistry
     @ '' --set speaker.image.repository=metallb-speaker''
     @ '' --wait''"

definition deployMetalLBHelm ::
  "env \<Rightarrow> executor \<Rightarrow> world \<Rightarrow> 'n ClusterConfig \<Rightarrow> error option \<times> world" where
  "deployMetalLBHelm env client w cfg =
     (let pkgMgr = NewManager env;
          chartPath = GetPackagePath env pkgMgr ''metallb-chart''
      in if \<not> Exists env (trace w) pkgMgr ''metallb-chart''
         then (Some (MissingChart chartPath), w)
         else (let imageRegistry = parseImageRegistry (ImageRepository (Spec cfg))
               in (case client w (installCmd chartPath imageRegistry) of
                     ((_, Some err), w1) \<Rightarrow> (Some (HelmInstallFailed err), w1)
                   | ((_, None), w1) \<Rightarrow> (None, w1))))"

definition controllerWaitCmd :: string where
  "controllerWaitCmd = ''kubectl rollout status deployment/metallb-controller -n metallb-system --timeout=180s''"

definition speakerWaitCmd :: string where
  "speakerWaitCmd = ''kubectl rollout status daemonset/metallb-speaker -n metallb-system --timeout=180s''"

definition waitForMetalLB :: "executor \<Rightarrow> world \<Rightarrow> error option \<times> world" where
  "waitForMetalLB client w =
     (case client w controllerWaitCmd of
        ((_, Some err), w1) \<Rightarrow> (Some (ControllerNotReady err), w1)
      | ((_, None), w1) \<Rightarrow>
          (case client w1 speakerWaitCmd of
             ((_, Some err), w2) \<Rightarrow> (Some (SpeakerNotReady err), w2)
           | ((_, None), w2) \<Rightarrow> (None, log (Sleep 5) w2)))"

text \<open>\<open>echo '...' | kubectl apply -f -\<close> of a manifest.\<close>

definition applyCmd :: "string \<Rightarrow> string" where
  "applyCmd manifest = ''echo '' @ [CHR 0x27] @ manifest @ [CHR 0x27] @ '' | kubectl apply -f -''"

definition ipPoolYAML :: "'n ClusterConfig \<Rightarrow> string" where
  "ipPoolYAML cfg =
     (let addresses = concat (map (\<lambda>ipEntry. ''  - '' @ ipEntry @ [CHR 0x0A])
                                  (LoadBalancerIPs (BGP (Spec cfg))))
      in ''apiVersion: metallb.io/v1beta1'' @ [CHR 0x0A] @ ''kind: IPAddressPool'' @ [CHR 0x0A] @ ''metadata:'' @ [CHR 0x0A] @ ''  name: '' @ Name (Metadata cfg)
         @ ''-ip-pool'' @ [CHR 0x0A] @ ''  namespace: metallb-system'' @ [CHR 0x0A] @ ''spec:'' @ [CHR 0x0A] @ ''  addresses:'' @ [CHR 0x0A] @ addresses)"

definition createMetalLBIPPool ::
  "executor \<Rightarrow> world \<Rightarrow> 'n ClusterConfig \<Rightarrow> error option \<times> world" where
  "createMetalLBIPPool client w cfg =
     (if length (LoadBalancerIPs (BGP (Spec cfg))) = 0 then (Some LoadBalancerIPsEmpty, w)
      else (case client w (applyCmd (ipPoolYAML cfg)) of
              ((_, Some err), w1) \<Rightarrow> (Some (IPAddressPoolFailed err), w1)
            | ((_, None), w1) \<Rightarrow> (None, w1)))"

definition peerYAML :: "'n ClusterConfig \<Rightarrow> nat \<Rightarrow> BGPPeerConfig \<Rightarrow> string" where
  "peerYAML cfg i peer =
     ''apiVersion: metallb.io/v1beta2'' @ [CHR 0x0A] @ ''kind: BGPPeer'' @ [CHR 0x0A] @ ''metadata:'' @ [CHR 0x0A] @ ''  name: '' @ Name (Metadata cfg) @ ''-peer-'' @ digits i
     @ [CHR 0x0A] @ ''  namespace: metallb-system'' @ [CHR 0x0A] @ ''spec:'' @ [CHR 0x0A] @ ''  myASN: '' @ fmt_d (LocalASN (BGP (Spec cfg)))
     @ [CHR 0x0A] @ ''  peerASN: '' @ fmt_d (PeerASN peer)
     @ [CHR 0x0A] @ ''  peerAddress: '' @ PeerAddress peer @ [CHR 0x0A]"

text \<open>The loop of createMetalLBBGPPeers from index \<open>i\<close> on.\<close>

fun create_peers ::
  "executor \<Rightarrow> world \<Rightarrow> 'n ClusterConfig \<Rightarrow> nat \<Rightarrow> BGPPeerConfig list \<Rightarrow> error option \<times> world" where
  "create_peers client w cfg i [] = (None, w)"
| "create_peers client w cfg i (peer # peers) =
     (case client w (applyCmd (peerYAML cfg i peer)) of
        ((_, Some err), w1) \<Rightarrow> (Some (BGPPeerFailed i err), w1)
      | ((_, None), w1) \<Rightarrow> create_peers client w1 cfg (i + 1) peers)"

definition createMetalLBBGPPeers ::
  "executor \<Rightarrow> world \<Rightarrow> 'n ClusterConfig \<Rightarrow> error option \<times> world" where
  "createMetalLBBGPPeers client w cfg = create_peers client w cfg 0 (Peers (BGP (Spec cfg)))"

definition advYAML :: "'n ClusterConfig \<Rightarrow> string" where
  "advYAML cfg =
     ''apiVersion: metallb.io/v1beta1'' @ [CHR 0x0A] @ ''kind: BGPAdvertisement'' @ [CHR 0x0A] @ ''metadata:'' @ [CHR 0x0A] @ ''  name: '' @ Name (Metadata cfg)
     @ ''-bgp-adv'' @ [CHR 0x0A] @ ''  namespace: metallb-system'' @ [CHR 0x0A] @ ''spec:'' @ [CHR 0x0A] @ ''  ipAddressPools:'' @ [CHR 0x0A] @ ''  - '' @ Name (Metadata cfg) @ ''-ip-pool'' @ [CHR 0x0A]"

definition createMetalLBBGPAdvertisement ::
  "executor \<Rightarrow> world \<Rightarrow> 'n ClusterConfig \<Rightarrow> error option \<times> world" where
  "createMetalLBBGPAdvertisement client w cfg =
     (case client w (applyCmd (advYAML cfg)) of
        ((_, Some err), w1) \<Rightarrow> (Some (BGPAdvertisementFailed err), w1)
      | ((_, None), w1) \<Rightarrow> (None, w1))"

definition verifyMetalLBBGP :: "executor \<Rightarrow> world \<Rightarrow> error option \<times> world" where
  "verifyMetalLBBGP client w =
     (case client w ''kubectl get ipaddresspool -n metallb-system'' of
        ((_, Some err), w1) \<Rightarrow> (Some (VerifyIPAddressPoolFailed err), w1)
      | ((_, None), w1) \<Rightarrow>
          (case client w1 ''kubectl get bgppeer -n metallb-system'' of
             ((_, Some err), w2) \<Rightarrow> (Some (VerifyBGPPeerFailed err), w2)
           | ((_, None), w2) \<Rightarrow>
               (case client w2 ''kubectl get bgpadvertisement -n metallb-system'' of
                  ((_, Some err), w3) \<Rightarrow> (Some (VerifyBGPAdvertisementFailed err), w3)
                | ((_, None), w3) \<Rightarrow> (None, w3))))"

definition ConfigureMetalLBBGP ::
  "executor \<Rightarrow> world \<Rightarrow> 'n ClusterConfig \<Rightarrow> error option \<times> world" where
  "ConfigureMetalLBBGP client w cfg =
     (case createMetalLBIPPool client w cfg of
        (Some err, w1) \<Rightarrow> (Some err, w1)
      | (None, w1) \<Rightarrow>
          (case createMetalLBBGPPeers client w1 cfg of
             (Some err, w2) \<Rightarrow> (Some err, w2)
           | (None, w2) \<Rightarrow>
               (case createMetalLBBGPAdvertisement client w2 cfg of
                  (Some err, w3) \<Rightarrow> (Some err, w3)
                | (None, w3) \<Rightarrow> verifyMetalLBBGP client w3)))"

definition configureMetalLBBGP ::
  "executor \<Rightarrow> world \<Rightarrow> 'n ClusterConfig \<Rightarrow> error option \<times> world" where
  "configureMetalLBBGP client w cfg = ConfigureMetalLBBGP client w cfg"

definition l2AdvYAML :: "'n ClusterConfig \<Rightarrow> string" where
  "l2AdvYAML cfg =
     ''apiVersion: metallb.io/v1beta1'' @ [CHR 0x0A] @ ''kind: L2Advertisement'' @ [CHR 0x0A] @ ''metadata:'' @ [CHR 0x0A] @ ''  name: '' @ Name (Metadata cfg)
     @ ''-l2-adv'' @ [CHR 0x0A] @ ''  namespace: metallb-system'' @ [CHR 0x0A] @ ''spec:'' @ [CHR 0x0A] @ ''  ipAddressPools:'' @ [CHR 0x0A] @ ''  - '' @ Name (Metadata cfg) @ ''-ip-pool'' @ [CHR 0x0A]"

definition configureMetalLBL2 ::
  "executor \<Rightarrow> world \<Rightarrow> 'n ClusterConfig \<Rightarrow> error option \<times> world" where
  "configureMetalLBL2 client w cfg =
     (case createMetalLBIPPool client w cfg of
        (Some err, w1) \<Rightarrow> (Some err, w1)
      | (None, w1) \<Rightarrow>
          (case client w1 (applyCmd (l2AdvYAML cfg)) of
             ((_, Some err), w2) \<Rightarrow> (Some (L2AdvertisementFailed err), w2)
           | ((_, None), w2) \<Rightarrow> (None, w2)))"

text \<open>
  InstallMetalLB returns at once when neither BGP nor the L2 mode is requested; otherwise
  it deploys the chart, waits for the controller and the speaker, and creates the address
  pool with its BGP or L2 resources, returning at the first error.
\<close>

definition InstallMetalLB ::
  "env \<Rightarrow> executor \<Rightarrow> world \<Rightarrow> 'n ClusterConfig \<Rightarrow> error option \<times> world" where
  "InstallMetalLB env client w cfg =
     (if \<not> BGP_Enabled (BGP (Spec cfg)) \<and> LB_Mode (LoadBalancer (Spec cfg)) \<noteq> ''l2''
      then (None, w)
      else (case deployMetalLBHelm env client w cfg of
              (Some err, w1) \<Rightarrow> (Some err, w1)
            | (None, w1) \<Rightarrow>
                (case waitForMetalLB client w1 of
                   (Some err, w2) \<Rightarrow> (Some err, w2)
                 | (None, w2) \<Rightarrow>
                     (if BGP_Enabled (BGP (Spec cfg))
                      then configureMetalLBBGP client w2 cfg
                      else configureMetalLBL2 client w2 cfg))))"

definition bgpCheckCmd :: string where
  "bgpCheckCmd = ''kubectl get bgppeer -n metallb-system 2>/dev/null''"

definition checkBGPEnabled :: "executor \<Rightarrow> world \<Rightarrow> (bool \<times> error option) \<times> world" where
  "checkBGPEnabled client w =
     (case client w bgpCheckCmd of
        ((_, err), w1) \<Rightarrow> ((err = None, None), w1))"

definition updateBGPOnly ::
  "env \<Rightarrow> executor \<Rightarrow> world \<Rightarrow> 'n ClusterConfig \<Rightarrow> error option \<times> world" where
  "updateBGPOnly env client w cfg =
     (if \<not> BGP_Enabled (BGP (Spec cfg)) then (Some BGPNotEnabled, w)
      else (case checkBGPEnabled client w of
              ((_, Some err), w1) \<Rightarrow> (Some err, w1)
            | ((bgpEnabled, None), w1) \<Rightarrow>
                (case InstallMetalLB env client w1 cfg of
                   (Some err, w2) \<Rightarrow> (Some err, w2)
                 | (None, w2) \<Rightarrow> (None, w2))))"

text \<open>The loop of updateFull over the detected changes: a change of type "BGP" runs
  updateBGPOnly, any other type runs nothing.\<close>

fun apply_changes ::
  "env \<Rightarrow> executor \<Rightarrow> world \<Rightarrow> 'n ClusterConfig \<Rightarrow> ConfigChange list \<Rightarrow> error option \<times> world" where
  "apply_changes env client w newCfg [] = (None, w)"
| "apply_changes env client w newCfg (change # changes) =
     (if Type change = ''BGP''
      then (case updateBGPOnly env client w newCfg of
              (Some err, w1) \<Rightarrow> (Some err, w1)
            | (None, w1) \<Rightarrow> apply_changes env client w1 newCfg changes)
      else apply_changes env client w newCfg changes)"

definition updateFull ::
  "env \<Rightarrow> executor \<Rightarrow> world \<Rightarrow> 'a ClusterConfig option \<Rightarrow> 'n ClusterConfig
     \<Rightarrow> error option \<times> world" where
  "updateFull env client w oldCfg newCfg =
     (let changes = detectAllChanges oldCfg newCfg
      in if length changes = 0 then (None, w)
         else apply_changes env client w newCfg changes)"

definition verifyClusterExistsLocal :: "executor \<Rightarrow> world \<Rightarrow> error option \<times> world" where
  "verifyClusterExistsLocal client w =
     (case client w ''kubectl cluster-info'' of ((_, err), w1) \<Rightarrow> (err, w1))"

definition LoadClusterConfigLocal ::
  "env \<Rightarrow> executor \<Rightarrow> world \<Rightarrow> string \<Rightarrow> (error + Config) \<times> world" where
  "LoadClusterConfigLocal env client w clusterName = LoadClusterConfig env client w clusterName"

text \<open>
  UpdateCluster from the detection of changes on: the confirmation, the apply routine of
  the chosen mode, and the write of the configuration record, whose failure is only a
  warning.
\<close>

definition reconcile ::
  "env \<Rightarrow> executor \<Rightarrow> world \<Rightarrow> Config option \<Rightarrow> slice ClusterConfig \<Rightarrow> bool \<Rightarrow> bool
     \<Rightarrow> error option \<times> world" where
  "reconcile env client w oldCfg newCfg onlyBGP autoConfirm =
     (let changes = (if onlyBGP then detectBGPChanges oldCfg newCfg
                     else detectAllChanges oldCfg newCfg)
      in if length changes = 0 then (None, w)
         else (case (if \<not> autoConfirm then WaitForConfirmation env w else (True, w)) of
                 (False, w1) \<Rightarrow> (None, w1)
               | (True, w1) \<Rightarrow>
                   (case (if onlyBGP then updateBGPOnly env client w1 newCfg
                          else updateFull env client w1 oldCfg newCfg) of
                      (Some updateErr, w2) \<Rightarrow> (Some updateErr, w2)
                    | (None, w2) \<Rightarrow>
                        (None, snd (UpdateClusterConfigMap env client w2 newCfg)))))"

text \<open>
  UpdateCluster. A failure to load the old configuration is a warning ("loading the cluster
  configuration failed, the check of immutable fields will be skipped"): \<open>oldCfg\<close>
  becomes nil and the function goes on.
\<close>

definition UpdateCluster ::
  "env \<Rightarrow> world \<Rightarrow> slice ClusterConfig \<Rightarrow> bool \<Rightarrow> bool \<Rightarrow> error option \<times> world" where
  "UpdateCluster env w newCfg onlyBGP autoConfirm =
     (let client = LocalExecute env
      in case verifyClusterExistsLocal client w of
           (Some err, w1) \<Rightarrow> (Some (ClusterVerifyFailed err), w1)
         | (None, w1) \<Rightarrow>
            (case LoadClusterConfigLocal env client w1 (Name (Metadata newCfg)) of
               (loaded, w2) \<Rightarrow>
                 (let oldCfg = (case loaded of Inl err \<Rightarrow> None | Inr cfg \<Rightarrow> Some cfg)
                  in if (case oldCfg of None \<Rightarrow> False
                         | Some old \<Rightarrow> ValidateImmutableFields old newCfg \<noteq> None)
                     then (Some ConfigValidationFailed, w2)
                     else reconcile env client w2 oldCfg newCfg onlyBGP autoConfirm)))"

section \<open>SSH clients (pkg/executor/ssh.go)\<close>

text \<open>
  NewSSHClientWithPassword: key authentication when a key file is given, else password
  authentication, else an error; then one dial. The handle of the new connection is the
  position of its dial event in the trace.
\<close>

definition NewSSHClientWithPassword ::
  "env \<Rightarrow> world \<Rightarrow> string \<Rightarrow> int \<Rightarrow> string \<Rightarrow> string \<Rightarrow> string
     \<Rightarrow> (error + SSHClient) \<times> world" where
  "NewSSHClientWithPassword env w host port user keyFile password =
     (let method =
        (if keyFile \<noteq> [] then
           (case read_file env (expand env keyFile) of
              Inl err \<Rightarrow> Inl (ReadKeyFailed err)
            | Inr key \<Rightarrow>
               (case parse_key env key of
                  Inl err \<Rightarrow> Inl (ParseKeyFailed err)
                | Inr signer \<Rightarrow> Inr (PublicKeys signer)))
         else if password \<noteq> [] then Inr (PasswordAuth password)
         else Inl NoCredentials)
      in case method of
           Inl err \<Rightarrow> (Inl err, w)
         | Inr a \<Rightarrow>
            (case dial env (trace w) host port user a of
               Some err \<Rightarrow> (Inl (DialFailed err), log (Dial host port user a) w)
             | None \<Rightarrow>
                 (Inr \<lparr>Host = host, Port = port, User = user, conn = length (trace w),
                       orig_keyFile = keyFile, orig_password = password\<rparr>,
                  log (Dial host port user a) w)))"







section \<open>Hostnames (pkg/config/loader.go)\<close>



section \<open>Validation (package config)\<close>

definition is_digit :: "char \<Rightarrow> bool" where
  "is_digit c = (48 \<le> (of_char c :: nat) \<and> (of_char c :: nat) \<le> 57)"

definition is_lower :: "char \<Rightarrow> bool" where
  "is_lower c = (97 \<le> (of_char c :: nat) \<and> (of_char c :: nat) \<le> 122)"

text \<open>The regular expression \<^verbatim>\<open>^[a-z0-9-]+$\<close>.\<close>

definition name_format :: "string \<Rightarrow> bool" where
  "name_format s = (s \<noteq> [] \<and> list_all (\<lambda>c. is_lower c \<or> is_digit c \<or> c = CHR ''-'') s)"

text \<open>The regular expression \<^verbatim>\<open>^v\d+\.\d+\.\d+$\<close>.\<close>

definition version_format :: "string \<Rightarrow> bool" where
  "version_format s =
     (case s of
        [] \<Rightarrow> False
      | c # r \<Rightarrow>
          c = CHR ''v'' \<and> takeWhile is_digit r \<noteq> [] \<and>
          (case dropWhile is_digit r of
             [] \<Rightarrow> False
           | d1 # r2 \<Rightarrow>
               d1 = CHR ''.'' \<and> takeWhile is_digit r2 \<noteq> [] \<and>
               (case dropWhile is_digit r2 of
                  [] \<Rightarrow> False
                | d2 # r4 \<Rightarrow> d2 = CHR ''.'' \<and> r4 \<noteq> [] \<and> list_all is_digit r4)))"

definition validateMetadata :: "'n ClusterConfig \<Rightarrow> error option" where
  "validateMetadata cfg =
     (if APIVersion cfg = [] then Some APIVersionEmpty
      else if Kind cfg = [] then Some KindEmpty
      else if Name (Metadata cfg) = [] then Some NameEmpty
      else if \<not> name_format (Name (Metadata cfg)) then Some NameFormat
      else None)"

definition validateNetworking :: "env \<Rightarrow> NetworkConfig \<Rightarrow> error option" where
  "validateNetworking env net =
     (if PodSubnet net = [] then Some PodSubnetEmpty
      else if \<not> ParseCIDR env (PodSubnet net) then Some (PodSubnetFormat (PodSubnet net))
      else if ServiceSubnet net = [] then Some ServiceSubnetEmpty
      else if \<not> ParseCIDR env (ServiceSubnet net)
           then Some (ServiceSubnetFormat (ServiceSubnet net))
      else if cidr_overlap env (PodSubnet net) (ServiceSubnet net) then Some SubnetsOverlap
      else None)"

text \<open>The counting loop of validateHA.\<close>

definition count_masters :: "NodeConfig list \<Rightarrow> int" where
  "count_masters nodes =
     fold (\<lambda>node masterCount. if Role node = ''master'' then masterCount + 1 else masterCount)
          nodes 0"

definition validateHA :: "env \<Rightarrow> Config \<Rightarrow> error option" where
  "validateHA env cfg =
     (if \<not> HA_Enabled (HA (Spec cfg)) then None
      else let masterCount = count_masters (Nodes (Spec cfg))
           in if masterCount < 3 then Some (HATooFewMasters masterCount)
              else if VIP (HA (Spec cfg)) = [] then Some HAVipEmpty
              else if \<not> ParseIP env (VIP (HA (Spec cfg)))
                   then Some (HAVipFormat (VIP (HA (Spec cfg))))
              else None)"

definition validateSpec :: "env \<Rightarrow> Config \<Rightarrow> error option" where
  "validateSpec env cfg =
     (if Version (Spec cfg) = [] then Some VersionEmpty
      else if \<not> version_format (Version (Spec cfg)) then Some VersionFormat
      else if ImageRepository (Spec cfg) = [] then Some ImageRepositoryEmpty
      else (case validateNetworking env (Networking (Spec cfg)) of
              Some err \<Rightarrow> Some err
            | None \<Rightarrow>
               (case validateHA env cfg of
                  Some err \<Rightarrow> Some err
                | None \<Rightarrow> None)))"

text \<open>
  ValidateConfig runs validateMetadata, validateSpec, validateNodes and validateBGP in
  this order and returns the first error. The last two are parameters here: they run only
  after validateSpec has accepted the configuration.
\<close>

definition ValidateConfig ::
  "env \<Rightarrow> (Config \<Rightarrow> error option) \<Rightarrow> (BGPConfig \<Rightarrow> error option) \<Rightarrow> Config \<Rightarrow> error option" where
  "ValidateConfig env validateNodes validateBGP cfg =
     (case validateMetadata cfg of
        Some err \<Rightarrow> Some err
      | None \<Rightarrow>
         (case validateSpec env cfg of
            Some err \<Rightarrow> Some err
          | None \<Rightarrow>
             (case validateNodes cfg of
                Some err \<Rightarrow> Some err
              | None \<Rightarrow>
                 (case validateBGP (BGP (Spec cfg)) of
                    Some err \<Rightarrow> Some err
                  | None \<Rightarrow> None))))"

section \<open>Bootstrap configuration (pkg/kubeadm/config.go)\<close>

record InitConfig =
  Init_Version :: string
  Init_ImageRepository :: string
  ControlPlaneEndpoint :: string
  ClusterName :: string
  Init_VIP :: string
  LocalIP :: string
  Init_PodSubnet :: string
  Init_ServiceSubnet :: string
  MasterIPs :: "string list"

text \<open>The loop that collects the addresses of the masters.\<close>

definition masterIPs_of :: "NodeConfig list \<Rightarrow> string list" where
  "masterIPs_of nodes =
     fold (\<lambda>node ips. if Role node = ''master'' then ips @ [IP node] else ips) nodes []"

definition init_params :: "Config \<Rightarrow> string \<Rightarrow> InitConfig" where
  "init_params clusterConfig localIP =
     (let masterIPs = masterIPs_of (Nodes (Spec clusterConfig));
          controlPlaneEndpoint = localIP @ '':6443'';
          controlPlaneEndpoint = (if HA_Enabled (HA (Spec clusterConfig))
                                  then VIP (HA (Spec clusterConfig)) @ '':6443''
                                  else controlPlaneEndpoint)
      in \<lparr>Init_Version = Version (Spec clusterConfig),
          Init_ImageRepository = ImageRepository (Spec clusterConfig),
          ControlPlaneEndpoint = controlPlaneEndpoint,
          ClusterName = Name (Metadata clusterConfig),
          Init_VIP = VIP (HA (Spec clusterConfig)),
          LocalIP = localIP,
          Init_PodSubnet = PodSubnet (Networking (Spec clusterConfig)),
          Init_ServiceSubnet = ServiceSubnet (Networking (Spec clusterConfig)),
          MasterIPs = masterIPs\<rparr>)"

text \<open>The template kubeadm-init.yaml.tpl, in three parts: up to the value of
  \<open>controlPlaneEndpoint\<close>, that value, and the rest. \<open>text/template\<close> writes a
  string field as it is.\<close>

definition template_head :: "InitConfig \<Rightarrow> string" where
  "template_head p =
     ''apiVersion: kubeadm.k8s.io/v1beta4'' @ [CHR 0x0A] @ ''kind: ClusterConfiguration'' @ [CHR 0x0A] @ ''kubernetesVersion: ''
     @ Init_Version p @ [CHR 0x0A] @ ''imageRepository: '' @ Init_ImageRepository p
     @ [CHR 0x0A] @ ''controlPlaneEndpoint: '' @ [CHR 0x22]"

definition template_tail :: "InitConfig \<Rightarrow> string" where
  "template_tail p =
     [CHR 0x22, CHR 0x0A] @ ''clusterName: '' @ ClusterName p
     @ [CHR 0x0A] @ ''certificatesDir: /etc/kubernetes/pki'' @ [CHR 0x0A] @ ''caCertificateValidityPeriod: 876000h0m0s'' @ [CHR 0x0A] @ ''certificateValidityPeriod: 876000h0m0s'' @ [CHR 0x0A] @ ''encryptionAlgorithm: RSA-2048'' @ [CHR 0x0A] @ ''networking:'' @ [CHR 0x0A] @ ''  dnsDomain: cluster.local'' @ [CHR 0x0A] @ ''  podSubnet: ''
     @ Init_PodSubnet p @ [CHR 0x0A] @ ''  serviceSubnet: '' @ Init_ServiceSubnet p
     @ [CHR 0x0A] @ ''apiServer:'' @ [CHR 0x0A] @ ''  certSANs:''
     @ (if Init_VIP p \<noteq> [] then [CHR 0x0A] @ ''  - '' @ [CHR 0x22] @ Init_VIP p @ [CHR 0x22] else [])
     @ [CHR 0x0A] @ ''  ''
     @ concat (map (\<lambda>ip. ''- '' @ [CHR 0x22] @ ip @ [CHR 0x22, CHR 0x0A] @ ''  '') (MasterIPs p))
     @ [CHR 0x0A] @ ''  extraArgs:'' @ [CHR 0x0A] @ ''  - name: service-node-port-range'' @ [CHR 0x0A] @ ''    value: '' @ [CHR 0x22] @ ''1-65535'' @ [CHR 0x22, CHR 0x0A] @ ''etcd:'' @ [CHR 0x0A] @ ''  local:'' @ [CHR 0x0A] @ ''    dataDir: /var/lib/etcd'' @ [CHR 0x0A] @ ''---'' @ [CHR 0x0A] @ ''apiVersion: kubeadm.k8s.io/v1beta4'' @ [CHR 0x0A] @ ''kind: InitConfiguration'' @ [CHR 0x0A] @ ''localAPIEndpoint:'' @ [CHR 0x0A] @ ''  advertiseAddress: ''
     @ LocalIP p
     @ [CHR 0x0A] @ ''  bindPort: 6443'' @ [CHR 0x0A] @ ''nodeRegistration:'' @ [CHR 0x0A] @ ''  criSocket: unix:///run/containerd/containerd.sock'' @ [CHR 0x0A] @ ''  kubeletExtraArgs:'' @ [CHR 0x0A] @ ''  - name: cgroup-driver'' @ [CHR 0x0A] @ ''    value: systemd'' @ [CHR 0x0A] @ ''---'' @ [CHR 0x0A] @ ''apiVersion: kubelet.config.k8s.io/v1beta1'' @ [CHR 0x0A] @ ''kind: KubeletConfiguration'' @ [CHR 0x0A] @ ''cgroupDriver: systemd'' @ [CHR 0x0A]"

definition render_template :: "InitConfig \<Rightarrow> string" where
  "render_template p = template_head p @ ControlPlaneEndpoint p @ template_tail p"

text \<open>The embedded template parses and every field is a string, so neither error branch
  of GenerateInitConfig is taken.\<close>

definition GenerateInitConfig :: "Config \<Rightarrow> string \<Rightarrow> error + string" where
  "GenerateInitConfig clusterConfig localIP = Inr (render_template (init_params clusterConfig localIP))"

definition GetInitCommand :: "string \<Rightarrow> string list \<Rightarrow> string" where
  "GetInitCommand configFile skipPhases =
     fold (\<lambda>phase cmd. cmd @ '' --skip-phases='' @ phase) skipPhases
          (''kubeadm init --config '' @ configFile)"

section \<open>First master (pkg/cluster/deploy.go)\<close>

text \<open>The first node whose role is "master" gives the address; none gives the empty
  string.\<close>

fun getFirstMasterIP_nodes :: "NodeConfig list \<Rightarrow> string" where
  "getFirstMasterIP_nodes [] = []"
| "getFirstMasterIP_nodes (node # nodes) =
     (if Role node = ''master'' then IP node else getFirstMasterIP_nodes nodes)"

definition getFirstMasterIP :: "Config \<Rightarrow> string" where
  "getFirstMasterIP cfg = getFirstMasterIP_nodes (Nodes (Spec cfg))"

definition NewSSHClient ::
  "env \<Rightarrow> world \<Rightarrow> string \<Rightarrow> int \<Rightarrow> string \<Rightarrow> string \<Rightarrow> (error + SSHClient) \<times> world" where
  "NewSSHClient env w host port user keyFile =
     NewSSHClientWithPassword env w host port user keyFile []"

definition markerCmd :: string where
  "markerCmd = ''test -f /etc/kubernetes/admin.conf''"

text \<open>The reset script: stop the kubelet, \<open>kubeadm reset\<close>, kill what is left of the
  control plane, remove the directories of Kubernetes, etcd and the kubelet, delete the
  leftover network interfaces, restart containerd. Its comments are in Chinese.\<close>

definition resetCmd :: string where
  "resetCmd = [CHR 0x0A, CHR 0x09, CHR 0x09] @ ''# '' @ [CHR 0xE5, CHR 0x81, CHR 0x9C, CHR 0xE6, CHR 0xAD, CHR 0xA2, CHR 0xE6, CHR 0x89, CHR 0x80, CHR 0xE6, CHR 0x9C, CHR 0x89] @ '' K8s '' @ [CHR 0xE7, CHR 0xBB, CHR 0x84, CHR 0xE4, CHR 0xBB, CHR 0xB6, CHR 0x0A, CHR 0x09, CHR 0x09] @ ''systemctl stop kubelet || true'' @ [CHR 0x0A, CHR 0x09, CHR 0x09, CHR 0x0A, CHR 0x09, CHR 0x09] @ ''# '' @ [CHR 0xE6, CHR 0x89, CHR 0xA7, CHR 0xE8, CHR 0xA1, CHR 0x8C] @ '' kubeadm reset'' @ [CHR 0x0A, CHR 0x09, CHR 0x09] @ ''kubeadm reset -f --cri-socket unix:///run/containerd/containerd.sock'' @ [CHR 0x0A, CHR 0x09, CHR 0x09, CHR 0x0A, CHR 0x09, CHR 0x09] @ ''# '' @ [CHR 0xE6, CHR 0xB8, CHR 0x85, CHR 0xE7, CHR 0x90, CHR 0x86, CHR 0xE6, CHR 0xAE, CHR 0x8B, CHR 0xE7, CHR 0x95, CHR 0x99, CHR 0xE8, CHR 0xBF, CHR 0x9B, CHR 0xE7, CHR 0xA8, CHR 0x8B, CHR 0x0A, CHR 0x09, CHR 0x09] @ ''pkill -9 kube-apiserver || true'' @ [CHR 0x0A, CHR 0x09, CHR 0x09] @ ''pkill -9 kube-controller || true'' @ [CHR 0x0A, CHR 0x09, CHR 0x09] @ ''pkill -9 kube-scheduler || true'' @ [CHR 0x0A, CHR 0x09, CHR 0x09] @ ''pkill -9 etcd || true'' @ [CHR 0x0A, CHR 0x09, CHR 0x09, CHR 0x0A, CHR 0x09, CHR 0x09] @ ''# '' @ [CHR 0xE6, CHR 0xB8, CHR 0x85, CHR 0xE7, CHR 0x90, CHR 0x86, CHR 0xE6, CHR 0xAE, CHR 0x8B, CHR 0xE7, CHR 0x95, CHR 0x99, CHR 0xE6, CHR 0x96, CHR 0x87, CHR 0xE4, CHR 0xBB, CHR 0xB6, CHR 0x0A, CHR 0x09, CHR 0x09] @ ''rm -rf /etc/kubernetes/*'' @ [CHR 0x0A, CHR 0x09, CHR 0x09] @ ''rm -rf /var/lib/etcd/*'' @ [CHR 0x0A, CHR 0x09, CHR 0x09] @ ''rm -rf /var/lib/kubelet/*'' @ [CHR 0x0A, CHR 0x09, CHR 0x09, CHR 0x0A, CHR 0x09, CHR 0x09] @ ''# '' @ [CHR 0xE6, CHR 0xB8, CHR 0x85, CHR 0xE7, CHR 0x90, CHR 0x86, CHR 0xE7, CHR 0xBD, CHR 0x91, CHR 0xE7, CHR 0xBB, CHR 0x9C, CHR 0xE9, CHR 0x85, CHR 0x8D, CHR 0xE7, CHR 0xBD, CHR 0xAE, CHR 0x0A, CHR 0x09, CHR 0x09] @ ''ip link delete cni0 2>/dev/null || true'' @ [CHR 0x0A, CHR 0x09, CHR 0x09] @ ''ip link delete flannel.1 2>/dev/null || true'' @ [CHR 0x0A, CHR 0x09, CHR 0x09, CHR 0x0A, CHR 0x09, CHR 0x09] @ ''# '' @ [CHR 0xE9, CHR 0x87, CHR 0x8D, CHR 0xE5, CHR 0x90, CHR 0xAF] @ '' containerd'' @ [CHR 0x0A, CHR 0x09, CHR 0x09] @ ''systemctl restart containerd'' @ [CHR 0x0A, CHR 0x09, CHR 0x09, CHR 0x0A, CHR 0x09, CHR 0x09] @ ''# '' @ [CHR 0xE7, CHR 0xAD, CHR 0x89, CHR 0xE5, CHR 0xBE, CHR 0x85] @ '' containerd '' @ [CHR 0xE5, CHR 0xAE, CHR 0x8C, CHR 0xE5, CHR 0x85, CHR 0xA8, CHR 0xE5, CHR 0x90, CHR 0xAF, CHR 0xE5, CHR 0x8A, CHR 0xA8, CHR 0x0A, CHR 0x09, CHR 0x09] @ ''sleep 3'' @ [CHR 0x0A, CHR 0x09]"

definition kubectlSetupCmd :: string where
  "kubectlSetupCmd = [CHR 0x0A, CHR 0x09, CHR 0x09] @ ''mkdir -p $HOME/.kube'' @ [CHR 0x0A, CHR 0x09, CHR 0x09] @ ''cp /etc/kubernetes/admin.conf $HOME/.kube/config'' @ [CHR 0x0A, CHR 0x09, CHR 0x09] @ ''chown $(id -u):$(id -g) $HOME/.kube/config'' @ [CHR 0x0A, CHR 0x09]"

definition initConfigFile :: string where
  "initConfigFile = ''/tmp/kubeadm-init.yaml''"

text \<open>
  initFirstMaster after the check of the marker and the reset: render and upload the
  bootstrap configuration, run \<open>kubeadm init\<close> without the kube-proxy addon, set up
  kubectl, and issue the join credentials. GetJoinInfo (token, CA hash, certificate key)
  is one event with the outcome the environment gives.
\<close>

definition init_control_plane ::
  "env \<Rightarrow> SSHClient \<Rightarrow> world \<Rightarrow> Config \<Rightarrow> string \<Rightarrow> (error + JoinCommand) \<times> world" where
  "init_control_plane env c w cfg masterIP =
     (case GenerateInitConfig cfg masterIP of
        Inl err \<Rightarrow> (Inl err, w)
      | Inr kubeadmConfig \<Rightarrow>
         (case SSHExecute env c w
                 (''cat > '' @ initConfigFile @ '' << '' @ [CHR 0x27] @ ''EOF'' @ [CHR 0x27, CHR 0x0A] @ kubeadmConfig @ [CHR 0x0A] @ ''EOF'') of
            ((_, Some err), w1) \<Rightarrow> (Inl err, w1)
          | ((_, None), w1) \<Rightarrow>
             (case SSHExecute env c w1 (GetInitCommand initConfigFile [''addon/kube-proxy'']) of
                ((_, Some err), w2) \<Rightarrow> (Inl (KubeadmInitFailed err), w2)
              | ((_, None), w2) \<Rightarrow>
                 (case SSHExecute env c w2 kubectlSetupCmd of
                    ((_, Some err), w3) \<Rightarrow> (Inl err, w3)
                  | ((_, None), w3) \<Rightarrow>
                     (let controlPlaneEndpoint = masterIP @ '':6443'';
                          controlPlaneEndpoint = (if HA_Enabled (HA (Spec cfg))
                                                  then VIP (HA (Spec cfg)) @ '':6443''
                                                  else controlPlaneEndpoint)
                      in case join_info env (trace w3) controlPlaneEndpoint of
                           Inl err \<Rightarrow> (Inl (JoinInfoFailed err), log JoinInfoIssued w3)
                         | Inr joinInfo \<Rightarrow> (Inr joinInfo, log JoinInfoIssued w3))))))"

text \<open>
  initFirstMaster. \<open>cfg.Spec.Nodes[0]\<close> panics on an empty node list. The deferred
  \<open>client.Close()\<close> runs on every return after the connection was made.
\<close>

definition initFirstMaster ::
  "env \<Rightarrow> world \<Rightarrow> Config \<Rightarrow> string \<Rightarrow> (error + JoinCommand) \<times> world" where
  "initFirstMaster env w cfg masterIP =
     (case Nodes (Spec cfg) of
        [] \<Rightarrow> (Inl IndexOutOfRange, w)
      | node0 # _ \<Rightarrow>
         (case NewSSHClient env w masterIP 22 ''root'' (SSH_KeyFile (SSH node0)) of
            (Inl err, w1) \<Rightarrow> (Inl err, w1)
          | (Inr c, w1) \<Rightarrow>
             (case (case SSHExecute env c w1 markerCmd of
                      ((_, None), w2) \<Rightarrow>
                        (case WaitForDangerousConfirmation env w2 of
                           (False, w3) \<Rightarrow> (Inl UserCancelled, w3)
                         | (True, w3) \<Rightarrow>
                            (case SSHExecute env c w3 resetCmd of
                               ((_, Some err), w4) \<Rightarrow> (Inl (ResetFailed err), w4)
                             | ((_, None), w4) \<Rightarrow> init_control_plane env c w4 cfg masterIP))
                    | ((_, Some err), w2) \<Rightarrow> init_control_plane env c w2 cfg masterIP) of
                (result, w5) \<Rightarrow> (result, log CloseConn w5))))"

section \<open>Example configurations and environments\<close>

definition ex_ssh :: SSHConfig where
  "ex_ssh = \<lparr>SSH_User = ''ops'', SSH_Port = 22, SSH_KeyFile = [], SSH_Password = ''s3cret''\<rparr>"

definition ex_node :: "string \<Rightarrow> string \<Rightarrow> bool \<Rightarrow> NodeConfig" where
  "ex_node role ip gpu = \<lparr>Role = role, IP = ip, Hostname = [], GPU = gpu, SSH = ex_ssh\<rparr>"

definition ex_nodes :: "NodeConfig list" where
  "ex_nodes = [ex_node ''master'' ''10.0.0.1'' False, ex_node ''worker'' ''10.0.0.2'' False,
               ex_node ''worker'' ''10.0.0.3'' True, ex_node ''worker'' ''10.0.0.4'' False]"

definition ex_bgp :: BGPConfig where
  "ex_bgp = \<lparr>BGP_Enabled = True, LocalASN = 65000,
             Peers = [\<lparr>PeerAddress = ''10.0.0.254'', PeerASN = 65001\<rparr>],
             LoadBalancerIPs = [''10.0.4.0/24'']\<rparr>"

definition ex_spec :: "'n \<Rightarrow> 'n ClusterSpec" where
  "ex_spec nodes =
     \<lparr>Version = ''v1.34.2'', ImageRepository = ''registry.k8s.io'',
      Harbor = \<lparr>Harbor_Username = ''admin'', Harbor_Password = ''hunter2'', Harbor_Insecure = False\<rparr>,
      Networking = \<lparr>PodSubnet = ''10.244.0.0/16'', ServiceSubnet = ''10.96.0.0/12''\<rparr>,
      HA = \<lparr>HA_Enabled = False, VIP = []\<rparr>,
      Hubble = \<lparr>Hubble_Enabled = False, Hubble_Metrics_Enabled = False,
                Hubble_UI_Enabled = False, Hubble_UI_NodePort = 0\<rparr>,
      LoadBalancer = \<lparr>LB_Provider = [], LB_Mode = []\<rparr>,
      BGP = ex_bgp, GatewayAPI_Enabled = False, Envoy_Enabled = False,
      Nodes = nodes\<rparr>"

definition ex_config :: "'n \<Rightarrow> 'n ClusterConfig" where
  "ex_config nodes =
     \<lparr>APIVersion = ''k8s-deployer/v1'', Kind = ''Cluster'', Metadata = \<lparr>Name = ''demo''\<rparr>,
      Spec = ex_spec nodes\<rparr>"

text \<open>The example configuration as a value, and as a pointer into a store whose array 0
  holds the four nodes.\<close>

definition ex_cfg :: Config where
  "ex_cfg = ex_config ex_nodes"

definition ex_ptr :: "slice ClusterConfig" where
  "ex_ptr = ex_config \<lparr>base = 0, len = 4\<rparr>"

definition ex_heap :: "nat \<Rightarrow> NodeConfig list" where
  "ex_heap a = (if a = 0 then ex_nodes else [])"

definition ex_world :: world where
  "ex_world = \<lparr>trace = [], heap = ex_heap\<rparr>"

text \<open>An environment in which every local command prints \<open>out\<close> and succeeds, the
  persisted record parses to \<open>old\<close>, the user types \<open>answer\<close>, and
  every package file is present under /opt/k8s-deployer/packages.\<close>

definition ex_env :: "string \<Rightarrow> Config \<Rightarrow> string \<Rightarrow> env" where
  "ex_env out old answer =
     \<lparr>local_run = (\<lambda>t c. (out, None)),
      ssh_run = (\<lambda>t h c. RunOk out),
      typed = (\<lambda>t. answer),
      yaml_unmarshal = (\<lambda>s. Inr old),
      yaml_marshal = (\<lambda>c. Inr ''yaml''),
      clock = (\<lambda>t. ''2026-01-01T00:00:00Z''),
      getwd = ''/opt/k8s-deployer'',
      path_join = (\<lambda>a b. a @ ''/'' @ b),
      stat = (\<lambda>t p. True),
      read_file = (\<lambda>p. Inl ''no such file''),
      parse_key = (\<lambda>k. Inl ''no key''),
      dial = (\<lambda>t host port user a. None),
      expand = (\<lambda>p. p),
      ParseIP = (\<lambda>s. True),
      ParseCIDR = (\<lambda>s. True),
      cidr_overlap = (\<lambda>a b. False),
      join_info = (\<lambda>t e. Inl ''none'')\<rparr>"

text \<open>The example configuration with a second BGP peer.\<close>

definition ex_cfg2 :: Config where
  "ex_cfg2 = ex_cfg\<lparr>Spec := (Spec ex_cfg)\<lparr>BGP := (BGP (Spec ex_cfg))\<lparr>Peers :=
        [\<lparr>PeerAddress = ''10.0.0.254'', PeerASN = 65001\<rparr>,
         \<lparr>PeerAddress = ''10.0.0.253'', PeerASN = 65002\<rparr>]\<rparr>\<rparr>\<rparr>"

text \<open>The example with another version and another Pod subnet; what the environment
  \<open>ex_env ''ok''\<close> loads as the old configuration (the two secret reads print "ok"); and
  the world after that load.\<close>

definition ex_ptr3 :: "slice ClusterConfig" where
  "ex_ptr3 = ex_ptr\<lparr>Spec := (Spec ex_ptr)\<lparr>Version := ''v1.35.0'',
       Networking := \<lparr>PodSubnet = ''10.200.0.0/16'', ServiceSubnet = ''10.96.0.0/12''\<rparr>\<rparr>\<rparr>"

definition ex_loaded :: Config where
  "ex_loaded = ex_cfg\<lparr>Spec := (Spec ex_cfg)\<lparr>Harbor :=
      \<lparr>Harbor_Username = ''ok'', Harbor_Password = ''ok'', Harbor_Insecure = False\<rparr>\<rparr>\<rparr>"

definition ex_loaded_world :: world where
  "ex_loaded_world = 
     \<lparr>trace = map Exec [''kubectl cluster-info'', labelCheckCmd, getConfigCmd,
                           secretCmd ''harbor-username'', secretCmd ''harbor-password''],
      heap = ex_heap\<rparr>"

text \<open>The commands LoadClusterConfig runs, in order: the label check, the read of the
  record, the two reads of the secret.\<close>

definition load_reads :: "string list" where
  "load_reads = [labelCheckCmd, getConfigCmd, secretCmd ''harbor-username'', secretCmd ''harbor-password'']"

text \<open>The example with the second BGP peer, as a pointer; and the world after the label
  check found no labelled node.\<close>

definition ex_ptr2 :: "slice ClusterConfig" where
  "ex_ptr2 = ex_ptr\<lparr>Spec := (Spec ex_ptr)\<lparr>BGP := BGP (Spec ex_cfg2)\<rparr>\<rparr>"

definition ex_unmanaged_world :: world where
  "ex_unmanaged_world = \<lparr>trace = [Exec ''kubectl cluster-info'', Exec labelCheckCmd], heap = ex_heap\<rparr>"

text \<open>An SSH client for the examples.\<close>

definition ex_client :: SSHClient where
  "ex_client = \<lparr>Host = ''10.0.0.1'', Port = 22, User = ''root'', conn = 0,
                 orig_keyFile = ''/root/.ssh/id_rsa'', orig_password = []\<rparr>"







text \<open>The example with HA switched on: one master only.\<close>

definition ex_cfg_ha :: Config where
  "ex_cfg_ha = ex_cfg\<lparr>Spec := (Spec ex_cfg)\<lparr>HA := \<lparr>HA_Enabled = True, VIP = ''10.0.0.100''\<rparr>\<rparr>\<rparr>"

text \<open>An environment whose key files read and parse, and a configuration whose first
  node has a key file.\<close>

definition ex_env_ssh :: env where
  "ex_env_ssh = (ex_env ''ok'' ex_cfg ''n'')\<lparr>read_file := (\<lambda>p. Inr ''key''), parse_key := (\<lambda>k. Inr ''signer'')\<rparr>"

definition ex_cfg_key :: Config where
  "ex_cfg_key = ex_config [(ex_node ''master'' ''10.0.0.1'' False)
                             \<lparr>SSH := ex_ssh\<lparr>SSH_KeyFile := ''/root/.ssh/id_rsa''\<rparr>\<rparr>]"





text \<open>What \<open>n\<close> iterations of the retry loop add to the trace when no execution
  succeeds and none fails at the level of the connection: the command \<open>n\<close> times,
  with a sleep of two seconds between two executions.\<close>

fun plain_retry_events :: "command \<Rightarrow> nat \<Rightarrow> event list" where
  "plain_retry_events command 0 = []"
| "plain_retry_events command (Suc 0) = [Exec command]"
| "plain_retry_events command (Suc (Suc k)) = Exec command # Sleep 2 # plain_retry_events command (Suc k)"




section \<open>Properties: formatting and joining\<close>

lemma digits_small: "n < 10 \<Longrightarrow> digits n = [digit n]"
  by (simp add: digits.simps)

lemma sublist_Join: "x \<in> set xs \<Longrightarrow> sublist x (Join xs sep)"
proof (induction xs sep rule: Join.induct)
  case (1 sep) then show ?case by simp
next
  case (2 y sep) then show ?case by simp
next
  case (3 y z xs sep)
  show ?case
  proof (cases "x = y")
    case True
    then show ?thesis by (simp add: sublist_append_rightI)
  next
    case False
    with 3 have "sublist x (Join (z # xs) sep)" by simp
    then obtain ps ss where "Join (z # xs) sep = ps @ x @ ss" by (auto simp: sublist_def)
    then have "y @ sep @ Join (z # xs) sep = (y @ sep @ ps) @ x @ ss" by simp
    then show ?thesis unfolding sublist_def Join.simps by blast
  qed
qed

lemmas ex_defs = ex_cfg_def ex_cfg2_def ex_config_def ex_spec_def ex_bgp_def

section \<open>Properties: the BGP diff\<close>





section \<open>Properties: commands run by the update\<close>

lemma TrimSpace_Nil: "TrimSpace [] = []"
  by (simp add: TrimSpace_def)

lemma TrimSpace_ok: "TrimSpace ''ok'' = ''ok''"
  by (simp add: TrimSpace_def leading_space_def trailing_space_def)

lemma LocalExecute_world: "LocalExecute env w c = (r, w') \<Longrightarrow> w' = log (Exec c) w"
  by (auto simp: LocalExecute_def split: prod.splits option.splits)

lemma verifyDeployerManaged_world:
  "verifyDeployerManaged (LocalExecute env) w = (r, w') \<Longrightarrow> w' = log (Exec labelCheckCmd) w"
  by (auto simp: verifyDeployerManaged_def split: prod.splits option.splits if_splits
           dest: LocalExecute_world)

lemma loadSensitiveInfo_world:
  "loadSensitiveInfo (LocalExecute env) w cfg = (cfg', w') \<Longrightarrow>
     w' = log (Exec (secretCmd ''harbor-password'')) (log (Exec (secretCmd ''harbor-username'')) w)"
  by (auto simp: loadSensitiveInfo_def Let_def split: prod.splits dest!: LocalExecute_world)

lemma LoadClusterConfig_ok_world:
  assumes "LoadClusterConfig env (LocalExecute env) w n = (Inr cfg, w')"
  shows "w' = log (Exec (secretCmd ''harbor-password'')) (log (Exec (secretCmd ''harbor-username''))
               (log (Exec getConfigCmd) (log (Exec labelCheckCmd) w)))"
  using assms
  by (auto simp: LoadClusterConfig_def split: prod.splits option.splits sum.splits
           dest!: LocalExecute_world verifyDeployerManaged_world loadSensitiveInfo_world)

lemma verifyClusterExistsLocal_world:
  "verifyClusterExistsLocal (LocalExecute env) w = (r, w') \<Longrightarrow> w' = log (Exec ''kubectl cluster-info'') w"
  by (auto simp: verifyClusterExistsLocal_def split: prod.splits dest!: LocalExecute_world)

section \<open>Properties: immutable fields\<close>

lemma immutable_errors_empty_iff:
  "immutable_errors old new = [] \<longleftrightarrow>
     Name (Metadata old) = Name (Metadata new)
   \<and> PodSubnet (Networking (Spec old)) = PodSubnet (Networking (Spec new))
   \<and> ServiceSubnet (Networking (Spec old)) = ServiceSubnet (Networking (Spec new))
   \<and> Version (Spec old) = Version (Spec new)"
  by (auto simp: immutable_errors_def)

lemma ValidateImmutableFields_None_iff:
  "ValidateImmutableFields old new = None \<longleftrightarrow> immutable_errors old new = []"
  by (simp add: ValidateImmutableFields_def Let_def)

lemma ValidateImmutableFields_Some:
  "ValidateImmutableFields old new = Some e \<Longrightarrow>
     e = msg_immutable_header @ Join (immutable_errors old new) bullet_sep"
  by (simp add: ValidateImmutableFields_def Let_def split: if_splits)

lemma sublist_header_Join:
  "x \<in> set xs \<Longrightarrow> sublist x (h @ Join xs sep)"
proof -
  assume "x \<in> set xs"
  then have "sublist x (Join xs sep)" by (rule sublist_Join)
  then obtain ps ss where "Join xs sep = ps @ x @ ss" by (auto simp: sublist_def)
  then have "h @ Join xs sep = (h @ ps) @ x @ ss" by simp
  then show ?thesis unfolding sublist_def by blast
qed

text \<open>
  C3. ValidateImmutableFields returns an error exactly when the cluster name, the Pod
  subnet, the Service subnet or the version differs. The error is one message: the header
  followed by the entries of the list of violations, and the entry of every field that
  differs is part of it: "the cluster name cannot be modified" for the name, and for the
  Pod subnet, the Service subnet and the version the sentence of the field with its
  current value and the value the change attempted. When UpdateCluster has reached the cluster and loaded the old
  configuration and the check fails, UpdateCluster returns the validation error in the
  world the load left: the store is unchanged and the only commands run are the five reads
  (cluster-info, the label check, the read of the record, the two reads of the secret), so
  no apply routine has run and nothing was written.
\<close>

theorem immutable_fields_abort:
  fixes oldCfg :: Config and newCfg :: "slice ClusterConfig"
  shows "(ValidateImmutableFields oldCfg newCfg \<noteq> None \<longleftrightarrow>
            Name (Metadata oldCfg) \<noteq> Name (Metadata newCfg)
          \<or> PodSubnet (Networking (Spec oldCfg)) \<noteq> PodSubnet (Networking (Spec newCfg))
          \<or> ServiceSubnet (Networking (Spec oldCfg)) \<noteq> ServiceSubnet (Networking (Spec newCfg))
          \<or> Version (Spec oldCfg) \<noteq> Version (Spec newCfg))
       \<and> (\<forall>e. ValidateImmutableFields oldCfg newCfg = Some e \<longrightarrow>
             e = msg_immutable_header @ Join (immutable_errors oldCfg newCfg) bullet_sep
           \<and> (Name (Metadata oldCfg) \<noteq> Name (Metadata newCfg)
                \<longrightarrow> sublist ([CHR 0xE9, CHR 0x9B, CHR 0x86, CHR 0xE7, CHR 0xBE, CHR 0xA4, CHR 0xE5, CHR 0x90, CHR 0x8D, CHR 0xE7, CHR 0xA7, CHR 0xB0, CHR 0xE4, CHR 0xB8, CHR 0x8D, CHR 0xE5, CHR 0x8F, CHR 0xAF, CHR 0xE4, CHR 0xBF, CHR 0xAE, CHR 0xE6, CHR 0x94, CHR 0xB9]) e)
           \<and> (PodSubnet (Networking (Spec oldCfg)) \<noteq> PodSubnet (Networking (Spec newCfg))
                \<longrightarrow> sublist (''Pod '' @ [CHR 0xE7, CHR 0xBD, CHR 0x91, CHR 0xE6, CHR 0xAE, CHR 0xB5, CHR 0xE4, CHR 0xB8, CHR 0x8D, CHR 0xE5, CHR 0x8F, CHR 0xAF, CHR 0xE4, CHR 0xBF, CHR 0xAE, CHR 0xE6, CHR 0x94, CHR 0xB9] @ '' ('' @ [CHR 0xE5, CHR 0xBD, CHR 0x93, CHR 0xE5, CHR 0x89, CHR 0x8D] @ '': '' @ PodSubnet (Networking (Spec oldCfg)) @ '', '' @ [CHR 0xE5, CHR 0xB0, CHR 0x9D, CHR 0xE8, CHR 0xAF, CHR 0x95, CHR 0xE4, CHR 0xBF, CHR 0xAE, CHR 0xE6, CHR 0x94, CHR 0xB9, CHR 0xE4, CHR 0xB8, CHR 0xBA] @ '': '' @ PodSubnet (Networking (Spec newCfg)) @ '')'') e)
           \<and> (ServiceSubnet (Networking (Spec oldCfg)) \<noteq> ServiceSubnet (Networking (Spec newCfg))
                \<longrightarrow> sublist (''Service '' @ [CHR 0xE7, CHR 0xBD, CHR 0x91, CHR 0xE6, CHR 0xAE, CHR 0xB5, CHR 0xE4, CHR 0xB8, CHR 0x8D, CHR 0xE5, CHR 0x8F, CHR 0xAF, CHR 0xE4, CHR 0xBF, CHR 0xAE, CHR 0xE6, CHR 0x94, CHR 0xB9] @ '' ('' @ [CHR 0xE5, CHR 0xBD, CHR 0x93, CHR 0xE5, CHR 0x89, CHR 0x8D] @ '': '' @ ServiceSubnet (Networking (Spec oldCfg)) @ '', '' @ [CHR 0xE5, CHR 0xB0, CHR 0x9D, CHR 0xE8, CHR 0xAF, CHR 0x95, CHR 0xE4, CHR 0xBF, CHR 0xAE, CHR 0xE6, CHR 0x94, CHR 0xB9, CHR 0xE4, CHR 0xB8, CHR 0xBA] @ '': '' @ ServiceSubnet (Networking (Spec newCfg)) @ '')'') e)
           \<and> (Version (Spec oldCfg) \<noteq> Version (Spec newCfg)
                \<longrightarrow> sublist (''Kubernetes '' @ [CHR 0xE7, CHR 0x89, CHR 0x88, CHR 0xE6, CHR 0x9C, CHR 0xAC, CHR 0xE4, CHR 0xB8, CHR 0x8D, CHR 0xE5, CHR 0x8F, CHR 0xAF, CHR 0xE9, CHR 0x80, CHR 0x9A, CHR 0xE8, CHR 0xBF, CHR 0x87] @ '' update '' @ [CHR 0xE5, CHR 0x91, CHR 0xBD, CHR 0xE4, CHR 0xBB, CHR 0xA4, CHR 0xE4, CHR 0xBF, CHR 0xAE, CHR 0xE6, CHR 0x94, CHR 0xB9, CHR 0xEF, CHR 0xBC, CHR 0x8C, CHR 0xE8, CHR 0xAF, CHR 0xB7, CHR 0xE4, CHR 0xBD, CHR 0xBF, CHR 0xE7, CHR 0x94, CHR 0xA8] @ '' upgrade '' @ [CHR 0xE5, CHR 0x91, CHR 0xBD, CHR 0xE4, CHR 0xBB, CHR 0xA4] @ '' ('' @ [CHR 0xE5, CHR 0xBD, CHR 0x93, CHR 0xE5, CHR 0x89, CHR 0x8D] @ '': '' @ Version (Spec oldCfg) @ '', '' @ [CHR 0xE5, CHR 0xB0, CHR 0x9D, CHR 0xE8, CHR 0xAF, CHR 0x95, CHR 0xE4, CHR 0xBF, CHR 0xAE, CHR 0xE6, CHR 0x94, CHR 0xB9, CHR 0xE4, CHR 0xB8, CHR 0xBA] @ '': '' @ Version (Spec newCfg) @ '')'') e))
       \<and> (verifyClusterExistsLocal (LocalExecute env) w = (None, w1)
           \<and> LoadClusterConfigLocal env (LocalExecute env) w1 (Name (Metadata newCfg)) = (Inr oldCfg, w2)
           \<and> ValidateImmutableFields oldCfg newCfg \<noteq> None
           \<longrightarrow> UpdateCluster env w newCfg onlyBGP autoConfirm = (Some ConfigValidationFailed, w2)
             \<and> heap w2 = heap w
             \<and> trace w2 = trace w @ map Exec [''kubectl cluster-info'', labelCheckCmd, getConfigCmd,
                                              secretCmd ''harbor-username'', secretCmd ''harbor-password''])"
proof (intro conjI allI impI)
  show "ValidateImmutableFields oldCfg newCfg \<noteq> None \<longleftrightarrow>
            Name (Metadata oldCfg) \<noteq> Name (Metadata newCfg)
          \<or> PodSubnet (Networking (Spec oldCfg)) \<noteq> PodSubnet (Networking (Spec newCfg))
          \<or> ServiceSubnet (Networking (Spec oldCfg)) \<noteq> ServiceSubnet (Networking (Spec newCfg))
          \<or> Version (Spec oldCfg) \<noteq> Version (Spec newCfg)"
    by (simp add: ValidateImmutableFields_None_iff immutable_errors_empty_iff)
next
  fix e assume e: "ValidateImmutableFields oldCfg newCfg = Some e"
  then show "e = msg_immutable_header @ Join (immutable_errors oldCfg newCfg) bullet_sep"
    by (rule ValidateImmutableFields_Some)
next
  fix e assume e: "ValidateImmutableFields oldCfg newCfg = Some e"
    and d: "Name (Metadata oldCfg) \<noteq> Name (Metadata newCfg)"
  from d have "name_violation oldCfg newCfg \<in> set (immutable_errors oldCfg newCfg)"
    by (simp add: immutable_errors_def)
  then have "sublist (name_violation oldCfg newCfg) e"
    unfolding ValidateImmutableFields_Some [OF e] by (rule sublist_header_Join)
  then show "sublist ([CHR 0xE9, CHR 0x9B, CHR 0x86, CHR 0xE7, CHR 0xBE, CHR 0xA4, CHR 0xE5, CHR 0x90, CHR 0x8D, CHR 0xE7, CHR 0xA7, CHR 0xB0, CHR 0xE4, CHR 0xB8, CHR 0x8D, CHR 0xE5, CHR 0x8F, CHR 0xAF, CHR 0xE4, CHR 0xBF, CHR 0xAE, CHR 0xE6, CHR 0x94, CHR 0xB9]) e"
    by (simp add: name_violation_def msg_name_immutable_def)
next
  fix e assume e: "ValidateImmutableFields oldCfg newCfg = Some e"
    and d: "PodSubnet (Networking (Spec oldCfg)) \<noteq> PodSubnet (Networking (Spec newCfg))"
  from d have "pod_violation oldCfg newCfg \<in> set (immutable_errors oldCfg newCfg)"
    by (simp add: immutable_errors_def)
  then have "sublist (pod_violation oldCfg newCfg) e"
    unfolding ValidateImmutableFields_Some [OF e] by (rule sublist_header_Join)
  then show "sublist (''Pod '' @ [CHR 0xE7, CHR 0xBD, CHR 0x91, CHR 0xE6, CHR 0xAE, CHR 0xB5, CHR 0xE4, CHR 0xB8, CHR 0x8D, CHR 0xE5, CHR 0x8F, CHR 0xAF, CHR 0xE4, CHR 0xBF, CHR 0xAE, CHR 0xE6, CHR 0x94, CHR 0xB9] @ '' ('' @ [CHR 0xE5, CHR 0xBD, CHR 0x93, CHR 0xE5, CHR 0x89, CHR 0x8D] @ '': '' @ PodSubnet (Networking (Spec oldCfg)) @ '', '' @ [CHR 0xE5, CHR 0xB0, CHR 0x9D, CHR 0xE8, CHR 0xAF, CHR 0x95, CHR 0xE4, CHR 0xBF, CHR 0xAE, CHR 0xE6, CHR 0x94, CHR 0xB9, CHR 0xE4, CHR 0xB8, CHR 0xBA] @ '': '' @ PodSubnet (Networking (Spec newCfg)) @ '')'') e"
    by (simp add: pod_violation_def msg_pod_immutable_def msg_attempted_def)
next
  fix e assume e: "ValidateImmutableFields oldCfg newCfg = Some e"
    and d: "ServiceSubnet (Networking (Spec oldCfg)) \<noteq> ServiceSubnet (Networking (Spec newCfg))"
  from d have "service_violation oldCfg newCfg \<in> set (immutable_errors oldCfg newCfg)"
    by (simp add: immutable_errors_def)
  then have "sublist (service_violation oldCfg newCfg) e"
    unfolding ValidateImmutableFields_Some [OF e] by (rule sublist_header_Join)
  then show "sublist (''Service '' @ [CHR 0xE7, CHR 0xBD, CHR 0x91, CHR 0xE6, CHR 0xAE, CHR 0xB5, CHR 0xE4, CHR 0xB8, CHR 0x8D, CHR 0xE5, CHR 0x8F, CHR 0xAF, CHR 0xE4, CHR 0xBF, CHR 0xAE, CHR 0xE6, CHR 0x94, CHR 0xB9] @ '' ('' @ [CHR 0xE5, CHR 0xBD, CHR 0x93, CHR 0xE5, CHR 0x89, CHR 0x8D] @ '': '' @ ServiceSubnet (Networking (Spec oldCfg)) @ '', '' @ [CHR 0xE5, CHR 0xB0, CHR 0x9D, CHR 0xE8, CHR 0xAF, CHR 0x95, CHR 0xE4, CHR 0xBF, CHR 0xAE, CHR 0xE6, CHR 0x94, CHR 0xB9, CHR 0xE4, CHR 0xB8, CHR 0xBA] @ '': '' @ ServiceSubnet (Networking (Spec newCfg)) @ '')'') e"
    by (simp add: service_violation_def msg_service_immutable_def msg_attempted_def)
next
  fix e assume e: "ValidateImmutableFields oldCfg newCfg = Some e"
    and d: "Version (Spec oldCfg) \<noteq> Version (Spec newCfg)"
  from d have "version_violation oldCfg newCfg \<in> set (immutable_errors oldCfg newCfg)"
    by (simp add: immutable_errors_def)
  then have "sublist (version_violation oldCfg newCfg) e"
    unfolding ValidateImmutableFields_Some [OF e] by (rule sublist_header_Join)
  then show "sublist (''Kubernetes '' @ [CHR 0xE7, CHR 0x89, CHR 0x88, CHR 0xE6, CHR 0x9C, CHR 0xAC, CHR 0xE4, CHR 0xB8, CHR 0x8D, CHR 0xE5, CHR 0x8F, CHR 0xAF, CHR 0xE9, CHR 0x80, CHR 0x9A, CHR 0xE8, CHR 0xBF, CHR 0x87] @ '' update '' @ [CHR 0xE5, CHR 0x91, CHR 0xBD, CHR 0xE4, CHR 0xBB, CHR 0xA4, CHR 0xE4, CHR 0xBF, CHR 0xAE, CHR 0xE6, CHR 0x94, CHR 0xB9, CHR 0xEF, CHR 0xBC, CHR 0x8C, CHR 0xE8, CHR 0xAF, CHR 0xB7, CHR 0xE4, CHR 0xBD, CHR 0xBF, CHR 0xE7, CHR 0x94, CHR 0xA8] @ '' upgrade '' @ [CHR 0xE5, CHR 0x91, CHR 0xBD, CHR 0xE4, CHR 0xBB, CHR 0xA4] @ '' ('' @ [CHR 0xE5, CHR 0xBD, CHR 0x93, CHR 0xE5, CHR 0x89, CHR 0x8D] @ '': '' @ Version (Spec oldCfg) @ '', '' @ [CHR 0xE5, CHR 0xB0, CHR 0x9D, CHR 0xE8, CHR 0xAF, CHR 0x95, CHR 0xE4, CHR 0xBF, CHR 0xAE, CHR 0xE6, CHR 0x94, CHR 0xB9, CHR 0xE4, CHR 0xB8, CHR 0xBA] @ '': '' @ Version (Spec newCfg) @ '')'') e"
    by (simp add: version_violation_def msg_version_immutable_def msg_attempted_def)
next
  assume h: "verifyClusterExistsLocal (LocalExecute env) w = (None, w1)
           \<and> LoadClusterConfigLocal env (LocalExecute env) w1 (Name (Metadata newCfg)) = (Inr oldCfg, w2)
           \<and> ValidateImmutableFields oldCfg newCfg \<noteq> None"
  then show "UpdateCluster env w newCfg onlyBGP autoConfirm = (Some ConfigValidationFailed, w2)"
    by (simp add: UpdateCluster_def Let_def)
next
  assume h: "verifyClusterExistsLocal (LocalExecute env) w = (None, w1)
           \<and> LoadClusterConfigLocal env (LocalExecute env) w1 (Name (Metadata newCfg)) = (Inr oldCfg, w2)
           \<and> ValidateImmutableFields oldCfg newCfg \<noteq> None"
  then have w1: "w1 = log (Exec ''kubectl cluster-info'') w"
    and w2: "w2 = log (Exec (secretCmd ''harbor-password'')) (log (Exec (secretCmd ''harbor-username''))
               (log (Exec getConfigCmd) (log (Exec labelCheckCmd) w1)))"
    by (auto simp: LoadClusterConfigLocal_def dest: verifyClusterExistsLocal_world LoadClusterConfig_ok_world)
  show "heap w2 = heap w" by (simp add: w1 w2 log_def)
  show "trace w2 = trace w @ map Exec [''kubectl cluster-info'', labelCheckCmd, getConfigCmd,
                                              secretCmd ''harbor-username'', secretCmd ''harbor-password'']"
    by (simp add: w1 w2 log_def)
qed

lemma ex_verify:
  "verifyClusterExistsLocal (LocalExecute (ex_env ''ok'' ex_cfg ''n'')) ex_world
     = (None, log (Exec ''kubectl cluster-info'') ex_world)"
  by (simp add: verifyClusterExistsLocal_def LocalExecute_def ex_env_def)

lemma ex_load:
  "LoadClusterConfigLocal (ex_env ''ok'' ex_cfg ''n'') (LocalExecute (ex_env ''ok'' ex_cfg ''n''))
       (log (Exec ''kubectl cluster-info'') ex_world) (Name (Metadata ex_ptr3))
     = (Inr ex_loaded, ex_loaded_world)"
  by (simp add: LoadClusterConfigLocal_def LoadClusterConfig_def verifyDeployerManaged_def
        loadSensitiveInfo_def LocalExecute_def ex_env_def TrimSpace_ok log_def ex_world_def
        ex_loaded_def ex_loaded_world_def ex_defs)

lemma ex_differs: "ValidateImmutableFields ex_loaded ex_ptr3 \<noteq> None"
  by (simp add: ValidateImmutableFields_None_iff immutable_errors_empty_iff
        ex_loaded_def ex_ptr3_def ex_ptr_def ex_defs)

theorem immutable_fields_abort_witness:
  "UpdateCluster (ex_env ''ok'' ex_cfg ''n'') ex_world ex_ptr3 False True
     = (Some ConfigValidationFailed, ex_loaded_world)
   \<and> ValidateImmutableFields ex_loaded ex_ptr3
     = Some ([CHR 0xE6, CHR 0xA3, CHR 0x80, CHR 0xE6, CHR 0xB5, CHR 0x8B, CHR 0xE5, CHR 0x88, CHR 0xB0, CHR 0xE4, CHR 0xB8, CHR 0x8D, CHR 0xE5, CHR 0x8F, CHR 0xAF, CHR 0xE5, CHR 0x8F, CHR 0x98, CHR 0xE9, CHR 0x85, CHR 0x8D, CHR 0xE7, CHR 0xBD, CHR 0xAE, CHR 0xE8, CHR 0xA2, CHR 0xAB, CHR 0xE4, CHR 0xBF, CHR 0xAE, CHR 0xE6, CHR 0x94, CHR 0xB9] @ '':'' @ [CHR 0x0A] @ ''  - Pod '' @ [CHR 0xE7, CHR 0xBD, CHR 0x91, CHR 0xE6, CHR 0xAE, CHR 0xB5, CHR 0xE4, CHR 0xB8, CHR 0x8D, CHR 0xE5, CHR 0x8F, CHR 0xAF, CHR 0xE4, CHR 0xBF, CHR 0xAE, CHR 0xE6, CHR 0x94, CHR 0xB9] @ '' ('' @ [CHR 0xE5, CHR 0xBD, CHR 0x93, CHR 0xE5, CHR 0x89, CHR 0x8D] @ '': 10.244.0.0/16, '' @ [CHR 0xE5, CHR 0xB0, CHR 0x9D, CHR 0xE8, CHR 0xAF, CHR 0x95, CHR 0xE4, CHR 0xBF, CHR 0xAE, CHR 0xE6, CHR 0x94, CHR 0xB9, CHR 0xE4, CHR 0xB8, CHR 0xBA] @ '': 10.200.0.0/16)'' @ [CHR 0x0A] @ ''  - Kubernetes '' @ [CHR 0xE7, CHR 0x89, CHR 0x88, CHR 0xE6, CHR 0x9C, CHR 0xAC, CHR 0xE4, CHR 0xB8, CHR 0x8D, CHR 0xE5, CHR 0x8F, CHR 0xAF, CHR 0xE9, CHR 0x80, CHR 0x9A, CHR 0xE8, CHR 0xBF, CHR 0x87] @ '' update '' @ [CHR 0xE5, CHR 0x91, CHR 0xBD, CHR 0xE4, CHR 0xBB, CHR 0xA4, CHR 0xE4, CHR 0xBF, CHR 0xAE, CHR 0xE6, CHR 0x94, CHR 0xB9, CHR 0xEF, CHR 0xBC, CHR 0x8C, CHR 0xE8, CHR 0xAF, CHR 0xB7, CHR 0xE4, CHR 0xBD, CHR 0xBF, CHR 0xE7, CHR 0x94, CHR 0xA8] @ '' upgrade '' @ [CHR 0xE5, CHR 0x91, CHR 0xBD, CHR 0xE4, CHR 0xBB, CHR 0xA4] @ '' ('' @ [CHR 0xE5, CHR 0xBD, CHR 0x93, CHR 0xE5, CHR 0x89, CHR 0x8D] @ '': v1.34.2, '' @ [CHR 0xE5, CHR 0xB0, CHR 0x9D, CHR 0xE8, CHR 0xAF, CHR 0x95, CHR 0xE4, CHR 0xBF, CHR 0xAE, CHR 0xE6, CHR 0x94, CHR 0xB9, CHR 0xE4, CHR 0xB8, CHR 0xBA] @ '': v1.35.0)'')"
proof -
  note t = immutable_fields_abort [of ex_loaded ex_ptr3 "ex_env ''ok'' ex_cfg ''n''" ex_world
             "log (Exec ''kubectl cluster-info'') ex_world" ex_loaded_world False True]
  from t ex_verify ex_load ex_differs
  have a: "UpdateCluster (ex_env ''ok'' ex_cfg ''n'') ex_world ex_ptr3 False True
     = (Some ConfigValidationFailed, ex_loaded_world)"
    by blast
  from ex_differs obtain e where e: "ValidateImmutableFields ex_loaded ex_ptr3 = Some e" by auto
  with t have "e = msg_immutable_header @ Join (immutable_errors ex_loaded ex_ptr3) bullet_sep"
    by blast
  moreover have "immutable_errors ex_loaded ex_ptr3
      = [pod_violation ex_loaded ex_ptr3, version_violation ex_loaded ex_ptr3]"
    by (simp add: immutable_errors_def ex_loaded_def ex_ptr3_def ex_ptr_def ex_defs)
  ultimately have "e = [CHR 0xE6, CHR 0xA3, CHR 0x80, CHR 0xE6, CHR 0xB5, CHR 0x8B, CHR 0xE5, CHR 0x88, CHR 0xB0, CHR 0xE4, CHR 0xB8, CHR 0x8D, CHR 0xE5, CHR 0x8F, CHR 0xAF, CHR 0xE5, CHR 0x8F, CHR 0x98, CHR 0xE9, CHR 0x85, CHR 0x8D, CHR 0xE7, CHR 0xBD, CHR 0xAE, CHR 0xE8, CHR 0xA2, CHR 0xAB, CHR 0xE4, CHR 0xBF, CHR 0xAE, CHR 0xE6, CHR 0x94, CHR 0xB9] @ '':'' @ [CHR 0x0A] @ ''  - Pod '' @ [CHR 0xE7, CHR 0xBD, CHR 0x91, CHR 0xE6, CHR 0xAE, CHR 0xB5, CHR 0xE4, CHR 0xB8, CHR 0x8D, CHR 0xE5, CHR 0x8F, CHR 0xAF, CHR 0xE4, CHR 0xBF, CHR 0xAE, CHR 0xE6, CHR 0x94, CHR 0xB9] @ '' ('' @ [CHR 0xE5, CHR 0xBD, CHR 0x93, CHR 0xE5, CHR 0x89, CHR 0x8D] @ '': 10.244.0.0/16, '' @ [CHR 0xE5, CHR 0xB0, CHR 0x9D, CHR 0xE8, CHR 0xAF, CHR 0x95, CHR 0xE4, CHR 0xBF, CHR 0xAE, CHR 0xE6, CHR 0x94, CHR 0xB9, CHR 0xE4, CHR 0xB8, CHR 0xBA] @ '': 10.200.0.0/16)'' @ [CHR 0x0A] @ ''  - Kubernetes '' @ [CHR 0xE7, CHR 0x89, CHR 0x88, CHR 0xE6, CHR 0x9C, CHR 0xAC, CHR 0xE4, CHR 0xB8, CHR 0x8D, CHR 0xE5, CHR 0x8F, CHR 0xAF, CHR 0xE9, CHR 0x80, CHR 0x9A, CHR 0xE8, CHR 0xBF, CHR 0x87] @ '' update '' @ [CHR 0xE5, CHR 0x91, CHR 0xBD, CHR 0xE4, CHR 0xBB, CHR 0xA4, CHR 0xE4, CHR 0xBF, CHR 0xAE, CHR 0xE6, CHR 0x94, CHR 0xB9, CHR 0xEF, CHR 0xBC, CHR 0x8C, CHR 0xE8, CHR 0xAF, CHR 0xB7, CHR 0xE4, CHR 0xBD, CHR 0xBF, CHR 0xE7, CHR 0x94, CHR 0xA8] @ '' upgrade '' @ [CHR 0xE5, CHR 0x91, CHR 0xBD, CHR 0xE4, CHR 0xBB, CHR 0xA4] @ '' ('' @ [CHR 0xE5, CHR 0xBD, CHR 0x93, CHR 0xE5, CHR 0x89, CHR 0x8D] @ '': v1.34.2, '' @ [CHR 0xE5, CHR 0xB0, CHR 0x9D, CHR 0xE8, CHR 0xAF, CHR 0x95, CHR 0xE4, CHR 0xBF, CHR 0xAE, CHR 0xE6, CHR 0x94, CHR 0xB9, CHR 0xE4, CHR 0xB8, CHR 0xBA] @ '': v1.35.0)''"
    by (simp add: pod_violation_def version_violation_def msg_pod_immutable_def
          msg_version_immutable_def msg_attempted_def msg_immutable_header_def bullet_sep_def
          ex_loaded_def ex_ptr3_def ex_ptr_def ex_defs)
  with a e show ?thesis by simp
qed

section \<open>Properties: the update\<close>

lemma LoadClusterConfig_world:
  assumes "LoadClusterConfig env (LocalExecute env) w n = (r, w')"
  shows "heap w' = heap w \<and> (\<exists>k. trace w' = trace w @ map Exec (take k load_reads))"
proof -
  from assms consider
      (a) "w' = log (Exec labelCheckCmd) w"
    | (b) "w' = log (Exec getConfigCmd) (log (Exec labelCheckCmd) w)"
    | (c) "w' = log (Exec (secretCmd ''harbor-password'')) (log (Exec (secretCmd ''harbor-username''))
               (log (Exec getConfigCmd) (log (Exec labelCheckCmd) w)))"
    by (auto simp: LoadClusterConfig_def split: prod.splits option.splits sum.splits
           dest!: LocalExecute_world verifyDeployerManaged_world loadSensitiveInfo_world)
  then show ?thesis
  proof cases
    case a
    then have "trace w' = trace w @ map Exec (take 1 load_reads)" by (simp add: log_def load_reads_def)
    with a show ?thesis by (auto simp: log_def)
  next
    case b
    then have "trace w' = trace w @ map Exec (take 2 load_reads)" by (simp add: log_def load_reads_def)
    with b show ?thesis by (auto simp: log_def)
  next
    case c
    then have "trace w' = trace w @ map Exec (take 4 load_reads)" by (simp add: log_def load_reads_def)
    with c show ?thesis by (auto simp: log_def)
  qed
qed

lemma WaitForConfirmation_eq:
  "WaitForConfirmation env w =
     (typed env (trace w) \<in> {[], ''y'', ''Y'', ''yes'', ''Yes''}, log Confirmation w)"
  by (auto simp: WaitForConfirmation_def Let_def)

text \<open>
  C10. WaitForConfirmation answers yes exactly on the empty response and on "y", "Y", "yes"
  and "Yes". When UpdateCluster runs without auto-confirm, reaches the prompt (the cluster
  answers, the immutable fields pass when an old configuration was loaded, and some change
  is detected) and the response is any other, it returns nil. Its world is the one the
  load left plus the prompt: the commands run are cluster-info and the reads of the load,
  the store is unchanged, so no apply routine ran and the record was not written.
\<close>

theorem declined_update_is_success:
  fixes newCfg :: "slice ClusterConfig"
  assumes verify: "verifyClusterExistsLocal (LocalExecute env) w = (None, w1)"
      and load: "LoadClusterConfigLocal env (LocalExecute env) w1 (Name (Metadata newCfg)) = (loaded, w2)"
      and old: "oldCfg = (case loaded of Inl err \<Rightarrow> None | Inr cfg \<Rightarrow> Some cfg)"
      and immut: "\<forall>old. oldCfg = Some old \<longrightarrow> ValidateImmutableFields old newCfg = None"
      and changes: "(if onlyBGP then detectBGPChanges oldCfg newCfg
                     else detectAllChanges oldCfg newCfg) \<noteq> []"
      and declined: "typed env (trace w2) \<notin> {[], ''y'', ''Y'', ''yes'', ''Yes''}"
  shows "UpdateCluster env w newCfg onlyBGP False = (None, log Confirmation w2)
       \<and> WaitForConfirmation env w2 = (False, log Confirmation w2)
       \<and> (\<forall>w'. fst (WaitForConfirmation env w')
                  \<longleftrightarrow> typed env (trace w') \<in> {[], ''y'', ''Y'', ''yes'', ''Yes''})
       \<and> heap (log Confirmation w2) = heap w
       \<and> (\<exists>k. trace (log Confirmation w2)
               = trace w @ map Exec (''kubectl cluster-info'' # take k load_reads) @ [Confirmation])"
proof -
  have wait: "WaitForConfirmation env w2 = (False, log Confirmation w2)"
    using declined by (simp add: WaitForConfirmation_eq)
  have val: "\<not> (case oldCfg of None \<Rightarrow> False | Some old \<Rightarrow> ValidateImmutableFields old newCfg \<noteq> None)"
    using immut by (cases oldCfg) auto
  have rec: "reconcile env (LocalExecute env) w2 oldCfg newCfg onlyBGP False = (None, log Confirmation w2)"
    using changes wait by (simp add: reconcile_def Let_def)
  have upd: "UpdateCluster env w newCfg onlyBGP False = (None, log Confirmation w2)"
    using verify load val rec unfolding old by (simp add: UpdateCluster_def Let_def)
  have w1: "w1 = log (Exec ''kubectl cluster-info'') w"
    using verify by (rule verifyClusterExistsLocal_world)
  from load have "heap w2 = heap w1 \<and> (\<exists>k. trace w2 = trace w1 @ map Exec (take k load_reads))"
    unfolding LoadClusterConfigLocal_def by (rule LoadClusterConfig_world)
  then have hp: "heap (log Confirmation w2) = heap w"
    and tr: "\<exists>k. trace (log Confirmation w2)
               = trace w @ map Exec (''kubectl cluster-info'' # take k load_reads) @ [Confirmation]"
    by (auto simp: w1 log_def)
  have all: "\<forall>w'. fst (WaitForConfirmation env w')
                  \<longleftrightarrow> typed env (trace w') \<in> {[], ''y'', ''Y'', ''yes'', ''Yes''}"
    by (simp add: WaitForConfirmation_eq)
  from upd wait all hp tr show ?thesis by blast
qed

theorem declined_update_is_success_witness:
  "UpdateCluster (ex_env ''ok'' ex_cfg ''n'') ex_world ex_ptr2 False False
     = (None, log Confirmation ex_loaded_world)"
proof -
  have load: "LoadClusterConfigLocal (ex_env ''ok'' ex_cfg ''n'') (LocalExecute (ex_env ''ok'' ex_cfg ''n''))
       (log (Exec ''kubectl cluster-info'') ex_world) (Name (Metadata ex_ptr2))
     = (Inr ex_loaded, ex_loaded_world)"
    using ex_load by (simp add: ex_ptr2_def ex_ptr3_def)
  have old: "Some ex_loaded = (case (Inr ex_loaded :: error + Config) of Inl err \<Rightarrow> None | Inr cfg \<Rightarrow> Some cfg)"
    by simp
  have immut: "\<forall>old. Some ex_loaded = Some old \<longrightarrow> ValidateImmutableFields old ex_ptr2 = None"
    by (simp add: ValidateImmutableFields_None_iff immutable_errors_empty_iff
        ex_loaded_def ex_ptr2_def ex_ptr_def ex_defs)
  have changes: "(if False then detectBGPChanges (Some ex_loaded) ex_ptr2
                     else detectAllChanges (Some ex_loaded) ex_ptr2) \<noteq> []"
    by (simp add: detectAllChanges_def detectBGPChanges_def ex_loaded_def ex_ptr2_def ex_ptr_def ex_defs)
  have declined: "typed (ex_env ''ok'' ex_cfg ''n'') (trace ex_loaded_world) \<notin> {[], ''y'', ''Y'', ''yes'', ''Yes''}"
    by (simp add: ex_env_def)
  from declined_update_is_success [OF ex_verify load old immut changes declined]
  show ?thesis by blast
qed

lemma LoadClusterConfig_unmanaged:
  "verifyDeployerManaged client w1 = (Some err, w2) \<Longrightarrow>
     LoadClusterConfig env client w1 n = (Inl err, w2)"
  by (simp add: LoadClusterConfig_def)

lemma LocalExecute_trace: "trace (snd (LocalExecute env w c)) = trace w @ [Exec c]"
  by (auto simp: LocalExecute_def log_def split: prod.splits option.splits)

lemma UpdateClusterConfigMap_trace:
  "\<exists>es. trace (snd (UpdateClusterConfigMap env (LocalExecute env) w cfg)) = trace w @ es"
proof -
  obtain cfgCopy h' where sc: "sanitized_copy (heap w) cfg = (cfgCopy, h')" by (cases "sanitized_copy (heap w) cfg")
  let ?w0 = "w\<lparr>heap := h'\<rparr>"
  have t0: "trace ?w0 = trace w" by simp
  show ?thesis
  proof (cases "yaml_marshal env (deref h' cfgCopy)")
    case (Inl e)
    then show ?thesis by (simp add: UpdateClusterConfigMap_def sc)
  next
    case (Inr data)
    obtain r1 w1 where e1: "LocalExecute env ?w0 (writeCmd data (clock env (trace ?w0))) = (r1, w1)"
      by (cases "LocalExecute env ?w0 (writeCmd data (clock env (trace ?w0)))")
    then have w1: "w1 = log (Exec (writeCmd data (clock env (trace ?w0)))) ?w0" by (rule LocalExecute_world)
    obtain r2 w2 where e2: "LocalExecute env w1 patchCmd = (r2, w2)" by (cases "LocalExecute env w1 patchCmd")
    then have w2: "w2 = log (Exec patchCmd) w1" by (rule LocalExecute_world)
    show ?thesis
      using Inr e1 e2 sc
      by (cases r1; cases r2)
         (auto simp: UpdateClusterConfigMap_def Let_def w1 w2 log_def LocalExecute_trace split: option.splits)
  qed
qed

lemma checkBGPEnabled_ok: "\<exists>b w'. checkBGPEnabled client w = ((b, None), w')"
  by (simp add: checkBGPEnabled_def split: prod.splits)

lemma bgp_enable_changes_nonempty: "bgp_enable_changes v b \<noteq> []"
  by (simp add: bgp_enable_changes_def)

text \<open>
  A failed load of the persisted configuration. When the label check finds no labelled
  node (or fails), LoadClusterConfig returns that error right after the check, before the
  record is read, and UpdateCluster goes on as \<open>reconcile\<close> without an old
  configuration. In full mode no change is detected and it returns nil in the world the
  label check left; so does the BGP-only mode when the new configuration has BGP disabled.
\<close>

lemma UpdateCluster_load_failed:
  fixes newCfg :: "slice ClusterConfig"
  assumes verify: "verifyClusterExistsLocal (LocalExecute env) w = (None, w1)"
      and marker: "verifyDeployerManaged (LocalExecute env) w1 = (Some err, w2)"
  shows "LoadClusterConfigLocal env (LocalExecute env) w1 (Name (Metadata newCfg)) = (Inl err, w2)
       \<and> trace w2 = trace w @ [Exec ''kubectl cluster-info'', Exec labelCheckCmd]
       \<and> heap w2 = heap w
       \<and> UpdateCluster env w newCfg onlyBGP autoConfirm
            = reconcile env (LocalExecute env) w2 None newCfg onlyBGP autoConfirm
       \<and> (\<not> onlyBGP \<longrightarrow> UpdateCluster env w newCfg onlyBGP autoConfirm = (None, w2))
       \<and> (onlyBGP \<and> \<not> BGP_Enabled (BGP (Spec newCfg))
            \<longrightarrow> UpdateCluster env w newCfg onlyBGP autoConfirm = (None, w2))"
proof -
  have load: "LoadClusterConfigLocal env (LocalExecute env) w1 (Name (Metadata newCfg)) = (Inl err, w2)"
    unfolding LoadClusterConfigLocal_def using marker by (rule LoadClusterConfig_unmanaged)
  have w1: "w1 = log (Exec ''kubectl cluster-info'') w"
    using verify by (rule verifyClusterExistsLocal_world)
  have w2: "w2 = log (Exec labelCheckCmd) w1"
    using marker by (rule verifyDeployerManaged_world)
  have tr: "trace w2 = trace w @ [Exec ''kubectl cluster-info'', Exec labelCheckCmd]"
    and hp: "heap w2 = heap w"
    by (simp_all add: w1 w2 log_def)
  have upd: "UpdateCluster env w newCfg onlyBGP autoConfirm
            = reconcile env (LocalExecute env) w2 None newCfg onlyBGP autoConfirm"
    using verify load by (simp add: UpdateCluster_def Let_def)
  have full: "\<not> onlyBGP \<longrightarrow> UpdateCluster env w newCfg onlyBGP autoConfirm = (None, w2)"
    using upd by (cases onlyBGP) (simp_all add: reconcile_def detectAllChanges_def)
  have off: "onlyBGP \<and> \<not> BGP_Enabled (BGP (Spec newCfg))
            \<longrightarrow> UpdateCluster env w newCfg onlyBGP autoConfirm = (None, w2)"
    using upd by (cases onlyBGP) (simp_all add: reconcile_def detectBGPChanges_def)
  show ?thesis
    by (intro conjI) (rule load tr hp upd full off)+
qed

lemma digits_asn: "digits 65000 = ''65000''" "digits 65001 = ''65001''"
  by (simp_all add: digits.simps digit_def)

lemma ex_install:
  "InstallMetalLB (ex_env [] ex_cfg ''n'') (LocalExecute (ex_env [] ex_cfg ''n'')) w ex_ptr
     = (None, w\<lparr>trace := trace w @
          [Exec ''helm install metallb /opt/k8s-deployer/packages/metallb/metallb-0.15.2.tgz --namespace metallb-system --create-namespace --set controller.image.registry=registry.k8s.io --set controller.image.repository=metallb-controller --set speaker.image.registry=registry.k8s.io --set speaker.image.repository=metallb-speaker --wait'',
           Exec ''kubectl rollout status deployment/metallb-controller -n metallb-system --timeout=180s'',
           Exec ''kubectl rollout status daemonset/metallb-speaker -n metallb-system --timeout=180s'',
           Sleep 5,
           Exec (''echo '' @ [CHR 0x27] @ ''apiVersion: metallb.io/v1beta1'' @ [CHR 0x0A] @ ''kind: IPAddressPool'' @ [CHR 0x0A] @ ''metadata:'' @ [CHR 0x0A] @ ''  name: demo-ip-pool'' @ [CHR 0x0A] @ ''  namespace: metallb-system'' @ [CHR 0x0A] @ ''spec:'' @ [CHR 0x0A] @ ''  addresses:'' @ [CHR 0x0A] @ ''  - 10.0.4.0/24'' @ [CHR 0x0A, CHR 0x27] @ '' | kubectl apply -f -''),
           Exec (''echo '' @ [CHR 0x27] @ ''apiVersion: metallb.io/v1beta2'' @ [CHR 0x0A] @ ''kind: BGPPeer'' @ [CHR 0x0A] @ ''metadata:'' @ [CHR 0x0A] @ ''  name: demo-peer-0'' @ [CHR 0x0A] @ ''  namespace: metallb-system'' @ [CHR 0x0A] @ ''spec:'' @ [CHR 0x0A] @ ''  myASN: 65000'' @ [CHR 0x0A] @ ''  peerASN: 65001'' @ [CHR 0x0A] @ ''  peerAddress: 10.0.0.254'' @ [CHR 0x0A, CHR 0x27] @ '' | kubectl apply -f -''),
           Exec (''echo '' @ [CHR 0x27] @ ''apiVersion: metallb.io/v1beta1'' @ [CHR 0x0A] @ ''kind: BGPAdvertisement'' @ [CHR 0x0A] @ ''metadata:'' @ [CHR 0x0A] @ ''  name: demo-bgp-adv'' @ [CHR 0x0A] @ ''  namespace: metallb-system'' @ [CHR 0x0A] @ ''spec:'' @ [CHR 0x0A] @ ''  ipAddressPools:'' @ [CHR 0x0A] @ ''  - demo-ip-pool'' @ [CHR 0x0A, CHR 0x27] @ '' | kubectl apply -f -''),
           Exec ''kubectl get ipaddresspool -n metallb-system'',
           Exec ''kubectl get bgppeer -n metallb-system'',
           Exec ''kubectl get bgpadvertisement -n metallb-system'']\<rparr>)"
  by (simp add: InstallMetalLB_def deployMetalLBHelm_def NewManager_def GetPackagePath_def
        Exists_def parseImageRegistry_def installCmd_def waitForMetalLB_def controllerWaitCmd_def
        speakerWaitCmd_def configureMetalLBBGP_def ConfigureMetalLBBGP_def createMetalLBIPPool_def
        ipPoolYAML_def applyCmd_def createMetalLBBGPPeers_def peerYAML_def
        createMetalLBBGPAdvertisement_def advYAML_def verifyMetalLBBGP_def LocalExecute_def
        fmt_d_def digits_asn digits_small digit_def Let_def log_def
        ex_env_def ex_ptr_def ex_config_def ex_spec_def ex_bgp_def)

text \<open>
  C1. The claim fails on the code, and the code contradicts its own error: on a cluster
  where the label check prints nothing, the load of the persisted configuration fails with
  the ownership error ("the cluster was not deployed by k8s-deployer ... only clusters
  deployed by k8s-deployer can use the update command"), and yet the BGP-only update with
  automatic confirmation returns nil after it has deployed the MetalLB chart, created the
  address pool, the peer and the advertisement, and patched the configuration record.
\<close>

theorem unmanaged_cluster_update_proceeds:
  "LoadClusterConfigLocal (ex_env [] ex_cfg ''n'') (LocalExecute (ex_env [] ex_cfg ''n''))
       (log (Exec ''kubectl cluster-info'') ex_world) (Name (Metadata ex_ptr))
     = (Inl NotDeployerManaged, ex_unmanaged_world)
   \<and> fst (UpdateCluster (ex_env [] ex_cfg ''n'') ex_world ex_ptr True True) = None
   \<and> trace (snd (UpdateCluster (ex_env [] ex_cfg ''n'') ex_world ex_ptr True True))
       = [Exec ''kubectl cluster-info'',
          Exec ''kubectl get nodes -l k8s-deployer.stormdragon.io/managed=true --no-headers 2>/dev/null'',
          Exec ''kubectl get bgppeer -n metallb-system 2>/dev/null'',
          Exec ''helm install metallb /opt/k8s-deployer/packages/metallb/metallb-0.15.2.tgz --namespace metallb-system --create-namespace --set controller.image.registry=registry.k8s.io --set controller.image.repository=metallb-controller --set speaker.image.registry=registry.k8s.io --set speaker.image.repository=metallb-speaker --wait'',
          Exec ''kubectl rollout status deployment/metallb-controller -n metallb-system --timeout=180s'',
          Exec ''kubectl rollout status daemonset/metallb-speaker -n metallb-system --timeout=180s'',
          Sleep 5,
          Exec (''echo '' @ [CHR 0x27] @ ''apiVersion: metallb.io/v1beta1'' @ [CHR 0x0A] @ ''kind: IPAddressPool'' @ [CHR 0x0A] @ ''metadata:'' @ [CHR 0x0A] @ ''  name: demo-ip-pool'' @ [CHR 0x0A] @ ''  namespace: metallb-system'' @ [CHR 0x0A] @ ''spec:'' @ [CHR 0x0A] @ ''  addresses:'' @ [CHR 0x0A] @ ''  - 10.0.4.0/24'' @ [CHR 0x0A, CHR 0x27] @ '' | kubectl apply -f -''),
          Exec (''echo '' @ [CHR 0x27] @ ''apiVersion: metallb.io/v1beta2'' @ [CHR 0x0A] @ ''kind: BGPPeer'' @ [CHR 0x0A] @ ''metadata:'' @ [CHR 0x0A] @ ''  name: demo-peer-0'' @ [CHR 0x0A] @ ''  namespace: metallb-system'' @ [CHR 0x0A] @ ''spec:'' @ [CHR 0x0A] @ ''  myASN: 65000'' @ [CHR 0x0A] @ ''  peerASN: 65001'' @ [CHR 0x0A] @ ''  peerAddress: 10.0.0.254'' @ [CHR 0x0A, CHR 0x27] @ '' | kubectl apply -f -''),
          Exec (''echo '' @ [CHR 0x27] @ ''apiVersion: metallb.io/v1beta1'' @ [CHR 0x0A] @ ''kind: BGPAdvertisement'' @ [CHR 0x0A] @ ''metadata:'' @ [CHR 0x0A] @ ''  name: demo-bgp-adv'' @ [CHR 0x0A] @ ''  namespace: metallb-system'' @ [CHR 0x0A] @ ''spec:'' @ [CHR 0x0A] @ ''  ipAddressPools:'' @ [CHR 0x0A] @ ''  - demo-ip-pool'' @ [CHR 0x0A, CHR 0x27] @ '' | kubectl apply -f -''),
          Exec ''kubectl get ipaddresspool -n metallb-system'',
          Exec ''kubectl get bgppeer -n metallb-system'',
          Exec ''kubectl get bgpadvertisement -n metallb-system'',
          Exec (writeCmd ''yaml'' ''2026-01-01T00:00:00Z''), Exec patchCmd, Exec removeCmd]"
proof -
  let ?env = "ex_env [] ex_cfg ''n''"
  have load: "LoadClusterConfigLocal ?env (LocalExecute ?env)
       (log (Exec ''kubectl cluster-info'') ex_world) (Name (Metadata ex_ptr))
     = (Inl NotDeployerManaged, ex_unmanaged_world)"
    by (simp add: LoadClusterConfigLocal_def LoadClusterConfig_def verifyDeployerManaged_def
          LocalExecute_def ex_env_def TrimSpace_Nil log_def ex_world_def ex_unmanaged_world_def)
  have verify: "verifyClusterExistsLocal (LocalExecute ?env) ex_world
                  = (None, log (Exec ''kubectl cluster-info'') ex_world)"
    by (simp add: verifyClusterExistsLocal_def LocalExecute_def ex_env_def)
  have upd: "UpdateCluster ?env ex_world ex_ptr True True
               = reconcile ?env (LocalExecute ?env) ex_unmanaged_world None ex_ptr True True"
    using verify load by (simp add: UpdateCluster_def Let_def)
  have rec: "reconcile ?env (LocalExecute ?env) ex_unmanaged_world None ex_ptr True True
      = (None, snd (UpdateClusterConfigMap ?env (LocalExecute ?env)
           (snd (InstallMetalLB ?env (LocalExecute ?env)
                   (log (Exec bgpCheckCmd) ex_unmanaged_world) ex_ptr)) ex_ptr))"
    by (simp add: reconcile_def detectBGPChanges_def bgp_enable_changes_def updateBGPOnly_def
          checkBGPEnabled_def ex_install Let_def)
       (simp add: LocalExecute_def ex_env_def ex_ptr_def ex_config_def ex_spec_def ex_bgp_def)
  have tr: "trace (snd (UpdateClusterConfigMap ?env (LocalExecute ?env) w ex_ptr))
              = trace w @ [Exec (writeCmd ''yaml'' ''2026-01-01T00:00:00Z''), Exec patchCmd, Exec removeCmd]"
    for w
    by (simp add: UpdateClusterConfigMap_def sanitized_copy_def LocalExecute_def Let_def
          ex_env_def log_def split: prod.split)
  have f: "fst (UpdateCluster ?env ex_world ex_ptr True True) = None"
    unfolding upd rec by simp
  have t: "trace (snd (UpdateCluster ?env ex_world ex_ptr True True))
       = [Exec ''kubectl cluster-info'',
          Exec ''kubectl get nodes -l k8s-deployer.stormdragon.io/managed=true --no-headers 2>/dev/null'',
          Exec ''kubectl get bgppeer -n metallb-system 2>/dev/null'',
          Exec ''helm install metallb /opt/k8s-deployer/packages/metallb/metallb-0.15.2.tgz --namespace metallb-system --create-namespace --set controller.image.registry=registry.k8s.io --set controller.image.repository=metallb-controller --set speaker.image.registry=registry.k8s.io --set speaker.image.repository=metallb-speaker --wait'',
          Exec ''kubectl rollout status deployment/metallb-controller -n metallb-system --timeout=180s'',
          Exec ''kubectl rollout status daemonset/metallb-speaker -n metallb-system --timeout=180s'',
          Sleep 5,
          Exec (''echo '' @ [CHR 0x27] @ ''apiVersion: metallb.io/v1beta1'' @ [CHR 0x0A] @ ''kind: IPAddressPool'' @ [CHR 0x0A] @ ''metadata:'' @ [CHR 0x0A] @ ''  name: demo-ip-pool'' @ [CHR 0x0A] @ ''  namespace: metallb-system'' @ [CHR 0x0A] @ ''spec:'' @ [CHR 0x0A] @ ''  addresses:'' @ [CHR 0x0A] @ ''  - 10.0.4.0/24'' @ [CHR 0x0A, CHR 0x27] @ '' | kubectl apply -f -''),
          Exec (''echo '' @ [CHR 0x27] @ ''apiVersion: metallb.io/v1beta2'' @ [CHR 0x0A] @ ''kind: BGPPeer'' @ [CHR 0x0A] @ ''metadata:'' @ [CHR 0x0A] @ ''  name: demo-peer-0'' @ [CHR 0x0A] @ ''  namespace: metallb-system'' @ [CHR 0x0A] @ ''spec:'' @ [CHR 0x0A] @ ''  myASN: 65000'' @ [CHR 0x0A] @ ''  peerASN: 65001'' @ [CHR 0x0A] @ ''  peerAddress: 10.0.0.254'' @ [CHR 0x0A, CHR 0x27] @ '' | kubectl apply -f -''),
          Exec (''echo '' @ [CHR 0x27] @ ''apiVersion: metallb.io/v1beta1'' @ [CHR 0x0A] @ ''kind: BGPAdvertisement'' @ [CHR 0x0A] @ ''metadata:'' @ [CHR 0x0A] @ ''  name: demo-bgp-adv'' @ [CHR 0x0A] @ ''  namespace: metallb-system'' @ [CHR 0x0A] @ ''spec:'' @ [CHR 0x0A] @ ''  ipAddressPools:'' @ [CHR 0x0A] @ ''  - demo-ip-pool'' @ [CHR 0x0A, CHR 0x27] @ '' | kubectl apply -f -''),
          Exec ''kubectl get ipaddresspool -n metallb-system'',
          Exec ''kubectl get bgppeer -n metallb-system'',
          Exec ''kubectl get bgpadvertisement -n metallb-system'',
          Exec (writeCmd ''yaml'' ''2026-01-01T00:00:00Z''), Exec patchCmd, Exec removeCmd]"
    unfolding upd rec
    by (simp add: tr ex_install log_def ex_unmanaged_world_def labelCheckCmd_def
          DeployerLabel_def bgpCheckCmd_def)
  show ?thesis
    by (intro conjI) (rule load f t)+
qed

section \<open>Properties: the sanitized copy\<close>

lemma fold_store_clear:
  "n \<le> length (h (base s)) \<Longrightarrow>
     fold (store_clear s) [0 ..< n] h
       = h(base s := map clear_password (take n (h (base s))) @ drop n (h (base s)))"
proof (induction n)
  case 0
  then show ?case by simp
next
  case (Suc n)
  then have n: "n < length (h (base s))" by simp
  define xs where "xs = h (base s)"
  define A where "A = map clear_password (take n xs) @ drop n xs"
  have IH: "fold (store_clear s) [0 ..< n] h = h(base s := A)"
  proof -
    from n have "n \<le> length (h (base s))" by simp
    then show ?thesis unfolding A_def xs_def by (rule Suc.IH)
  qed
  have An: "A ! n = xs ! n"
    using n by (simp add: A_def xs_def nth_append)
  have upd: "A[n := clear_password (A ! n)] = map clear_password (take (Suc n) xs) @ drop (Suc n) xs"
    using n unfolding An
    by (simp add: A_def xs_def list_update_append take_Suc_conv_app_nth
                  Cons_nth_drop_Suc [symmetric])
  have "fold (store_clear s) [0 ..< Suc n] h = store_clear s n (fold (store_clear s) [0 ..< n] h)"
    by simp
  also have "\<dots> = store_clear s n (h(base s := A))" by (simp only: IH)
  also have "\<dots> = h(base s := A[n := clear_password (A ! n)])"
    by (simp add: store_clear_def)
  finally show ?case by (simp only: upd xs_def)
qed

lemma sanitized_copy_heap:
  "len (Nodes (Spec cfg)) \<le> length (h (base (Nodes (Spec cfg)))) \<Longrightarrow>
     snd (sanitized_copy h cfg)
       = h(base (Nodes (Spec cfg)) :=
             map clear_password (take (len (Nodes (Spec cfg))) (h (base (Nodes (Spec cfg)))))
             @ drop (len (Nodes (Spec cfg))) (h (base (Nodes (Spec cfg)))))"
  by (simp add: sanitized_copy_def Let_def fold_store_clear)

lemma sanitized_copy_caller:
  assumes "len (Nodes (Spec cfg)) \<le> length (h (base (Nodes (Spec cfg))))"
  shows "deref_nodes (snd (sanitized_copy h cfg)) (Nodes (Spec cfg))
           = map clear_password (deref_nodes h (Nodes (Spec cfg)))"
  using assms by (simp add: sanitized_copy_heap deref_nodes_def)

text \<open>What is serialized has no registry credentials and no SSH password.\<close>

lemma payload_no_secrets:
  assumes "len (Nodes (Spec cfg)) \<le> length (h (base (Nodes (Spec cfg))))"
  shows "Harbor_Username (Harbor (Spec (payload h cfg))) = []
       \<and> Harbor_Password (Harbor (Spec (payload h cfg))) = []
       \<and> (\<forall>node \<in> set (Nodes (Spec (payload h cfg))). SSH_Password (SSH node) = [])"
proof -
  have "Nodes (Spec (payload h cfg)) = map clear_password (deref_nodes h (Nodes (Spec cfg)))"
    using sanitized_copy_caller [of cfg h, OF assms]
    by (simp add: payload_def deref_def split: prod.splits)
       (simp add: sanitized_copy_def Let_def)
  then show ?thesis
    by (auto simp: payload_def deref_def sanitized_copy_def Let_def clear_password_def split: prod.splits)
qed

lemma SSHExecute_heap: "heap (snd (SSHExecute env c w cmd)) = heap w"
  by (auto simp: SSHExecute_def log_def split: ssh_outcome.splits)

lemma LocalExecute_heap: "heap (snd (LocalExecute env w cmd)) = heap w"
  by (auto simp: LocalExecute_def log_def split: prod.splits option.splits)

lemma saveConfigToConfigMap_heap:
  assumes "\<And>w cmd. heap (snd (client w cmd)) = heap w"
  shows "heap (snd (saveConfigToConfigMap env client w cfg)) = snd (sanitized_copy (heap w) cfg)"
proof -
  obtain cfgCopy h' where sc: "sanitized_copy (heap w) cfg = (cfgCopy, h')"
    by (cases "sanitized_copy (heap w) cfg")
  have h1: "\<And>w cmd r w'. client w cmd = (r, w') \<Longrightarrow> heap w' = heap w"
    using assms by (metis snd_conv)
  show ?thesis
    by (auto simp: saveConfigToConfigMap_def sc Let_def split: sum.splits prod.splits option.splits
             dest!: h1)
qed

lemma UpdateClusterConfigMap_heap:
  assumes "\<And>w cmd. heap (snd (client w cmd)) = heap w"
  shows "heap (snd (UpdateClusterConfigMap env client w cfg)) = snd (sanitized_copy (heap w) cfg)"
proof -
  obtain cfgCopy h' where sc: "sanitized_copy (heap w) cfg = (cfgCopy, h')"
    by (cases "sanitized_copy (heap w) cfg")
  have h1: "\<And>w cmd r w'. client w cmd = (r, w') \<Longrightarrow> heap w' = heap w"
    using assms by (metis snd_conv)
  show ?thesis
    by (auto simp: UpdateClusterConfigMap_def sc Let_def assms split: sum.splits prod.splits option.splits
             dest!: h1)
qed

lemma ex_wf: "len (Nodes (Spec ex_ptr)) \<le> length (heap ex_world (base (Nodes (Spec ex_ptr))))"
  by (simp add: ex_ptr_def ex_config_def ex_spec_def ex_world_def ex_heap_def ex_nodes_def)

lemma ex_caller_nodes: "deref_nodes (heap ex_world) (Nodes (Spec ex_ptr)) = ex_nodes"
  by (simp add: deref_nodes_def ex_ptr_def ex_config_def ex_spec_def ex_world_def ex_heap_def ex_nodes_def)

text \<open>
  C9. What saveConfigToConfigMap and UpdateClusterConfigMap serialize has the registry
  user name, the registry password and every SSH password cleared (lemma
  \<open>payload_no_secrets\<close>). The configuration passed in does not stay as it was: the
  copy shares the backing array of the nodes, so the loop clears the SSH passwords of the
  caller's nodes too. On the example, the caller's four nodes have the password "s3cret"
  before either call and the empty password after it.
\<close>

theorem save_config_clears_caller_passwords:
  "map (\<lambda>node. SSH_Password (SSH node)) (Nodes (Spec (deref (heap ex_world) ex_ptr)))
     = [''s3cret'', ''s3cret'', ''s3cret'', ''s3cret'']
   \<and> map (\<lambda>node. SSH_Password (SSH node))
        (Nodes (Spec (deref (heap (snd (saveConfigToConfigMap (ex_env ''ok'' ex_cfg ''n'')
                                          (SSHExecute (ex_env ''ok'' ex_cfg ''n'') ex_client)
                                          ex_world ex_ptr))) ex_ptr)))
     = [[], [], [], []]
   \<and> map (\<lambda>node. SSH_Password (SSH node))
        (Nodes (Spec (deref (heap (snd (UpdateClusterConfigMap (ex_env ''ok'' ex_cfg ''n'')
                                          (LocalExecute (ex_env ''ok'' ex_cfg ''n''))
                                          ex_world ex_ptr))) ex_ptr)))
     = [[], [], [], []]"
proof -
  have a: "Nodes (Spec (deref (heap ex_world) ex_ptr)) = ex_nodes"
    using ex_caller_nodes by (simp add: deref_def)
  have b: "deref_nodes (snd (sanitized_copy (heap ex_world) ex_ptr)) (Nodes (Spec ex_ptr))
             = map clear_password ex_nodes"
    using sanitized_copy_caller [of ex_ptr "heap ex_world", OF ex_wf] ex_caller_nodes by simp
  have c: "map (\<lambda>node. SSH_Password (SSH node)) (map clear_password ex_nodes) = [[], [], [], []]"
    by (simp add: ex_nodes_def clear_password_def)
  have d: "map (\<lambda>node. SSH_Password (SSH node)) ex_nodes = [''s3cret'', ''s3cret'', ''s3cret'', ''s3cret'']"
    by (simp add: ex_nodes_def ex_node_def ex_ssh_def)
  show ?thesis
    using a b c d
    by (simp add: saveConfigToConfigMap_heap UpdateClusterConfigMap_heap SSHExecute_heap
          LocalExecute_heap deref_def)
qed

section \<open>Properties: generated hostnames\<close>















lemma tag_distinct:
  "c @ ''-master-'' @ x \<noteq> c @ ''-gpu-node-'' @ y"
  "c @ ''-master-'' @ x \<noteq> c @ ''-node-'' @ y"
  "c @ ''-gpu-node-'' @ x \<noteq> c @ ''-node-'' @ y"
  by simp_all








section \<open>Properties: the control-plane endpoint\<close>

lemma fold_count_masters:
  "fold (\<lambda>node masterCount. if Role node = ''master'' then masterCount + 1 else masterCount) nodes a
     = a + int (length (filter (\<lambda>node. Role node = ''master'') nodes))"
  by (induction nodes arbitrary: a) auto

lemma count_masters_filter:
  "count_masters nodes = int (length (filter (\<lambda>node. Role node = ''master'') nodes))"
  by (simp add: count_masters_def fold_count_masters)

lemma getFirstMasterIP_nodes_first:
  "i < length nodes \<Longrightarrow> Role (nodes ! i) = ''master'' \<Longrightarrow>
     (\<forall>k<i. Role (nodes ! k) \<noteq> ''master'') \<Longrightarrow> getFirstMasterIP_nodes nodes = IP (nodes ! i)"
proof (induction nodes arbitrary: i)
  case Nil
  then show ?case by simp
next
  case (Cons node nodes)
  show ?case
  proof (cases i)
    case 0
    with Cons.prems show ?thesis by simp
  next
    case (Suc k)
    with Cons.prems have n: "Role node \<noteq> ''master''" by auto
    have "getFirstMasterIP_nodes nodes = IP (nodes ! k)"
    proof (rule Cons.IH)
      show "k < length nodes" using Cons.prems Suc by simp
      show "Role (nodes ! k) = ''master''" using Cons.prems Suc by simp
      show "\<forall>j<k. Role (nodes ! j) \<noteq> ''master''"
      proof (intro allI impI)
        fix j assume "j < k"
        then have "Suc j < i" using Suc by simp
        with Cons.prems(3) have "Role ((node # nodes) ! Suc j) \<noteq> ''master''" by blast
        then show "Role (nodes ! j) \<noteq> ''master''" by simp
      qed
    qed
    with n Suc show ?thesis by simp
  qed
qed

text \<open>
  C8. Without HA, the bootstrap configuration rendered for the address DeployCluster
  passes, the one getFirstMasterIP returns, has that address with port 6443 as its
  control-plane endpoint, and getFirstMasterIP returns the address of the first node whose
  role is "master". With HA the endpoint is the VIP with port 6443, whatever the local
  address. In both cases the endpoint stands in the rendered text between the head and
  the tail of the template. With HA and fewer than three masters, validateHA returns its
  error with the number of masters, and so validateSpec and ValidateConfig reject the
  configuration.
\<close>

theorem control_plane_endpoint:
  "(\<not> HA_Enabled (HA (Spec cfg)) \<longrightarrow>
       ControlPlaneEndpoint (init_params cfg (getFirstMasterIP cfg)) = getFirstMasterIP cfg @ '':6443''
     \<and> GenerateInitConfig cfg (getFirstMasterIP cfg)
         = Inr (template_head (init_params cfg (getFirstMasterIP cfg))
                @ (getFirstMasterIP cfg @ '':6443'')
                @ template_tail (init_params cfg (getFirstMasterIP cfg)))
     \<and> (\<forall>i. i < length (Nodes (Spec cfg)) \<and> Role (Nodes (Spec cfg) ! i) = ''master''
              \<and> (\<forall>k<i. Role (Nodes (Spec cfg) ! k) \<noteq> ''master'')
            \<longrightarrow> getFirstMasterIP cfg = IP (Nodes (Spec cfg) ! i)))
 \<and> (HA_Enabled (HA (Spec cfg)) \<longrightarrow>
       (\<forall>localIP. ControlPlaneEndpoint (init_params cfg localIP) = VIP (HA (Spec cfg)) @ '':6443''
          \<and> GenerateInitConfig cfg localIP
              = Inr (template_head (init_params cfg localIP)
                     @ (VIP (HA (Spec cfg)) @ '':6443'')
                     @ template_tail (init_params cfg localIP))))
 \<and> (HA_Enabled (HA (Spec cfg))
       \<and> length (filter (\<lambda>node. Role node = ''master'') (Nodes (Spec cfg))) < 3 \<longrightarrow>
       validateHA env cfg
         = Some (HATooFewMasters (int (length (filter (\<lambda>node. Role node = ''master'') (Nodes (Spec cfg))))))
     \<and> validateSpec env cfg \<noteq> None
     \<and> ValidateConfig env validateNodes validateBGP cfg \<noteq> None)"
proof (intro conjI impI allI)
  assume "\<not> HA_Enabled (HA (Spec cfg))"
  then show "ControlPlaneEndpoint (init_params cfg (getFirstMasterIP cfg)) = getFirstMasterIP cfg @ '':6443''"
    by (simp add: init_params_def Let_def)
  then show "GenerateInitConfig cfg (getFirstMasterIP cfg)
         = Inr (template_head (init_params cfg (getFirstMasterIP cfg))
                @ (getFirstMasterIP cfg @ '':6443'')
                @ template_tail (init_params cfg (getFirstMasterIP cfg)))"
    by (simp add: GenerateInitConfig_def render_template_def)
next
  fix i
  assume "i < length (Nodes (Spec cfg)) \<and> Role (Nodes (Spec cfg) ! i) = ''master''
              \<and> (\<forall>k<i. Role (Nodes (Spec cfg) ! k) \<noteq> ''master'')"
  then show "getFirstMasterIP cfg = IP (Nodes (Spec cfg) ! i)"
    unfolding getFirstMasterIP_def by (intro getFirstMasterIP_nodes_first) simp_all
next
  fix localIP
  assume "HA_Enabled (HA (Spec cfg))"
  then show "ControlPlaneEndpoint (init_params cfg localIP) = VIP (HA (Spec cfg)) @ '':6443''"
    by (simp add: init_params_def Let_def)
  then show "GenerateInitConfig cfg localIP
              = Inr (template_head (init_params cfg localIP)
                     @ (VIP (HA (Spec cfg)) @ '':6443'')
                     @ template_tail (init_params cfg localIP))"
    by (simp add: GenerateInitConfig_def render_template_def)
next
  assume h: "HA_Enabled (HA (Spec cfg))
       \<and> length (filter (\<lambda>node. Role node = ''master'') (Nodes (Spec cfg))) < 3"
  then show ha: "validateHA env cfg
         = Some (HATooFewMasters (int (length (filter (\<lambda>node. Role node = ''master'') (Nodes (Spec cfg))))))"
    by (simp add: validateHA_def Let_def count_masters_filter)
  then show sp: "validateSpec env cfg \<noteq> None"
    by (simp add: validateSpec_def split: option.splits)
  then show "ValidateConfig env validateNodes validateBGP cfg \<noteq> None"
    by (auto simp: ValidateConfig_def split: option.splits)
qed

theorem control_plane_endpoint_witness:
  "ControlPlaneEndpoint (init_params ex_cfg (getFirstMasterIP ex_cfg)) = ''10.0.0.1:6443''
   \<and> ControlPlaneEndpoint (init_params ex_cfg_ha ''10.0.0.1'') = ''10.0.0.100:6443''
   \<and> validateHA (ex_env ''ok'' ex_cfg ''n'') ex_cfg_ha = Some (HATooFewMasters 1)"
proof -
  have n: "Nodes (Spec ex_cfg) = ex_nodes" "Nodes (Spec ex_cfg_ha) = ex_nodes"
    by (simp_all add: ex_cfg_ha_def ex_cfg_def ex_config_def ex_spec_def)
  have off: "\<not> HA_Enabled (HA (Spec ex_cfg))"
    and on: "HA_Enabled (HA (Spec ex_cfg_ha))" and vip: "VIP (HA (Spec ex_cfg_ha)) = ''10.0.0.100''"
    by (simp_all add: ex_cfg_ha_def ex_cfg_def ex_config_def ex_spec_def)
  have first: "0 < length (Nodes (Spec ex_cfg)) \<and> Role (Nodes (Spec ex_cfg) ! 0) = ''master''
              \<and> (\<forall>k<0. Role (Nodes (Spec ex_cfg) ! k) \<noteq> ''master'')"
    by (simp add: n ex_nodes_def ex_node_def)
  have few: "length (filter (\<lambda>node. Role node = ''master'') (Nodes (Spec ex_cfg_ha))) = 1"
    by (simp add: n ex_nodes_def ex_node_def)
  note t1 = control_plane_endpoint [of ex_cfg, THEN conjunct1, rule_format, OF off]
  note t2 = control_plane_endpoint [of ex_cfg_ha, THEN conjunct2, THEN conjunct1, rule_format, OF on]
  note t3 = control_plane_endpoint [of ex_cfg_ha "ex_env ''ok'' ex_cfg ''n''", THEN conjunct2, THEN conjunct2, rule_format]
  from t1 first have ip: "getFirstMasterIP ex_cfg = IP (Nodes (Spec ex_cfg) ! 0)" by blast
  then have ip': "getFirstMasterIP ex_cfg = ''10.0.0.1''" by (simp add: n ex_nodes_def ex_node_def)
  from t1 have a: "ControlPlaneEndpoint (init_params ex_cfg (getFirstMasterIP ex_cfg)) = ''10.0.0.1:6443''"
    by (simp add: ip')
  from t2 [of "''10.0.0.1''"] have b: "ControlPlaneEndpoint (init_params ex_cfg_ha ''10.0.0.1'') = ''10.0.0.100:6443''"
    by (simp add: vip)
  from t3 on few have c: "validateHA (ex_env ''ok'' ex_cfg ''n'') ex_cfg_ha = Some (HATooFewMasters 1)"
    by simp
  from a b c show ?thesis by blast
qed

section \<open>Properties: a declined reset of the first master\<close>

lemma NewSSHClientWithPassword_ok:
  "NewSSHClientWithPassword env w host port user kf pw = (Inr c, w1) \<Longrightarrow>
     \<exists>a. w1 = log (Dial host port user a) w \<and> dial env (trace w) host port user a = None"
  by (auto simp: NewSSHClientWithPassword_def Let_def split: sum.splits if_splits option.splits)

lemma WaitForDangerousConfirmation_eq:
  "WaitForDangerousConfirmation env w = (typed env (trace w) = ''yes'', log DangerousConfirmation w)"
  by (simp add: WaitForDangerousConfirmation_def Let_def)

lemma SSHExecute_ok:
  "ssh_run env (trace w) (conn c) cmd = RunOk out \<Longrightarrow>
     SSHExecute env c w cmd = ((out, None), log (Exec cmd) w)"
  by (simp add: SSHExecute_def)

text \<open>
  C6. WaitForDangerousConfirmation answers yes on the response "yes" and on no other.
  When initFirstMaster has connected, the test for the marker
  \<open>/etc/kubernetes/admin.conf\<close> succeeds and the response is not "yes", it returns the
  error "the user cancelled the operation". The only command it ran on the master is that
  test: the events it added are the dial, the test, the prompt and the close of the
  connection, so neither the reset script nor \<open>kubeadm init\<close> ran.
\<close>

theorem declined_reset_leaves_master:
  assumes nodes: "Nodes (Spec cfg) = node0 # rest"
      and connect: "NewSSHClient env w masterIP 22 ''root'' (SSH_KeyFile (SSH node0)) = (Inr c, w1)"
      and marker: "ssh_run env (trace w1) (conn c) markerCmd = RunOk out"
      and declined: "typed env (trace w1 @ [Exec markerCmd]) \<noteq> ''yes''"
  shows "initFirstMaster env w cfg masterIP
           = (Inl UserCancelled,
              log CloseConn (log DangerousConfirmation (log (Exec markerCmd) w1)))
       \<and> (\<exists>a. trace (snd (initFirstMaster env w cfg masterIP))
                = trace w @ [Dial masterIP 22 ''root'' a, Exec markerCmd, DangerousConfirmation, CloseConn])
       \<and> Exec resetCmd \<notin> set (drop (length (trace w)) (trace (snd (initFirstMaster env w cfg masterIP))))
       \<and> heap (snd (initFirstMaster env w cfg masterIP)) = heap w
       \<and> (\<forall>w'. fst (WaitForDangerousConfirmation env w') \<longleftrightarrow> typed env (trace w') = ''yes'')"
proof -
  have ex: "SSHExecute env c w1 markerCmd = ((out, None), log (Exec markerCmd) w1)"
    using marker by (rule SSHExecute_ok)
  have no: "WaitForDangerousConfirmation env (log (Exec markerCmd) w1)
              = (False, log DangerousConfirmation (log (Exec markerCmd) w1))"
    using declined by (simp add: WaitForDangerousConfirmation_eq log_def)
  have r: "initFirstMaster env w cfg masterIP
           = (Inl UserCancelled,
              log CloseConn (log DangerousConfirmation (log (Exec markerCmd) w1)))"
    by (simp add: initFirstMaster_def nodes connect ex no)
  from connect obtain a where w1: "w1 = log (Dial masterIP 22 ''root'' a) w"
    unfolding NewSSHClient_def by (auto dest: NewSSHClientWithPassword_ok)
  have t: "trace (snd (initFirstMaster env w cfg masterIP))
             = trace w @ [Dial masterIP 22 ''root'' a, Exec markerCmd, DangerousConfirmation, CloseConn]"
    by (simp add: r w1 log_def)
  have d: "markerCmd \<noteq> resetCmd"
    by (simp add: markerCmd_def resetCmd_def)
  have n: "Exec resetCmd \<notin> set (drop (length (trace w)) (trace (snd (initFirstMaster env w cfg masterIP))))"
    using d by (simp add: t)
  have h: "heap (snd (initFirstMaster env w cfg masterIP)) = heap w"
    by (simp add: r w1 log_def)
  have q: "\<forall>w'. fst (WaitForDangerousConfirmation env w') \<longleftrightarrow> typed env (trace w') = ''yes''"
    by (simp add: WaitForDangerousConfirmation_eq)
  from r t n h q show ?thesis by blast
qed

theorem declined_reset_leaves_master_witness:
  "initFirstMaster ex_env_ssh ex_world ex_cfg_key ''10.0.0.1''
     = (Inl UserCancelled,
        \<lparr>trace = [Dial ''10.0.0.1'' 22 ''root'' (PublicKeys ''signer''), Exec markerCmd,
                  DangerousConfirmation, CloseConn],
         heap = ex_heap\<rparr>)"
proof -
  let ?c = "\<lparr>Host = ''10.0.0.1'', Port = 22, User = ''root'', conn = 0,
             orig_keyFile = ''/root/.ssh/id_rsa'', orig_password = []\<rparr>"
  let ?w1 = "log (Dial ''10.0.0.1'' 22 ''root'' (PublicKeys ''signer'')) ex_world"
  let ?node0 = "(ex_node ''master'' ''10.0.0.1'' False)\<lparr>SSH := ex_ssh\<lparr>SSH_KeyFile := ''/root/.ssh/id_rsa''\<rparr>\<rparr>"
  have nodes: "Nodes (Spec ex_cfg_key) = ?node0 # []"
    by (simp add: ex_cfg_key_def ex_config_def ex_spec_def)
  have connect: "NewSSHClient ex_env_ssh ex_world ''10.0.0.1'' 22 ''root'' (SSH_KeyFile (SSH ?node0)) = (Inr ?c, ?w1)"
    by (simp add: NewSSHClient_def NewSSHClientWithPassword_def ex_env_ssh_def ex_env_def
          ex_world_def log_def ex_ssh_def ex_node_def)
  have marker: "ssh_run ex_env_ssh (trace ?w1) (conn ?c) markerCmd = RunOk ''ok''"
    by (simp add: ex_env_ssh_def ex_env_def)
  have declined: "typed ex_env_ssh (trace ?w1 @ [Exec markerCmd]) \<noteq> ''yes''"
    by (simp add: ex_env_ssh_def ex_env_def)
  from declined_reset_leaves_master [OF nodes connect marker declined]
  have "initFirstMaster ex_env_ssh ex_world ex_cfg_key ''10.0.0.1''
     = (Inl UserCancelled, log CloseConn (log DangerousConfirmation (log (Exec markerCmd) ?w1)))"
    by blast
  then show ?thesis by (simp add: log_def ex_world_def)
qed

lemma SSHExecute_error: "SSHExecute env c w cmd = ((out, Some e), w') \<Longrightarrow> e \<noteq> UserCancelled"
  by (auto simp: SSHExecute_def split: ssh_outcome.splits)

lemma NewSSHClientWithPassword_error:
  "NewSSHClientWithPassword env w host port user kf pw = (Inl e, w') \<Longrightarrow> e \<noteq> UserCancelled"
  by (auto simp: NewSSHClientWithPassword_def Let_def split: sum.splits if_splits option.splits)

lemma init_control_plane_error:
  "init_control_plane env c w cfg ip = (Inl e, w') \<Longrightarrow> e \<noteq> UserCancelled"
  by (auto simp: init_control_plane_def GenerateInitConfig_def Let_def
           split: sum.splits prod.splits option.splits dest: SSHExecute_error)

text \<open>No other path of initFirstMaster returns that error.\<close>

lemma user_cancelled_only_when_declined:
  assumes "fst (initFirstMaster env w cfg ip) = Inl UserCancelled"
  shows "\<exists>node0 rest c w1 out.
           Nodes (Spec cfg) = node0 # rest
         \<and> NewSSHClient env w ip 22 ''root'' (SSH_KeyFile (SSH node0)) = (Inr c, w1)
         \<and> SSHExecute env c w1 markerCmd = ((out, None), log (Exec markerCmd) w1)
         \<and> typed env (trace w1 @ [Exec markerCmd]) \<noteq> ''yes''"
proof (cases "Nodes (Spec cfg)")
  case Nil
  with assms show ?thesis by (simp add: initFirstMaster_def)
next
  case (Cons node0 rest)
  obtain r w1 where n: "NewSSHClient env w ip 22 ''root'' (SSH_KeyFile (SSH node0)) = (r, w1)"
    by (cases "NewSSHClient env w ip 22 ''root'' (SSH_KeyFile (SSH node0))")
  show ?thesis
  proof (cases r)
    case (Inl e)
    with n have "e \<noteq> UserCancelled"
      unfolding NewSSHClient_def by (auto dest: NewSSHClientWithPassword_error)
    with assms Cons n Inl show ?thesis by (simp add: initFirstMaster_def)
  next
    case (Inr c)
    obtain out err w2 where m: "SSHExecute env c w1 markerCmd = ((out, err), w2)"
      by (cases "SSHExecute env c w1 markerCmd") auto
    show ?thesis
    proof (cases err)
      case (Some e)
      obtain r3 w3 where i: "init_control_plane env c w2 cfg ip = (r3, w3)"
        by (cases "init_control_plane env c w2 cfg ip")
      with assms Cons n Inr m Some have "r3 = Inl UserCancelled"
        by (simp add: initFirstMaster_def)
      with i show ?thesis using init_control_plane_error by blast
    next
      case None
      then have w2: "w2 = log (Exec markerCmd) w1"
        using m by (auto simp: SSHExecute_def split: ssh_outcome.splits)
      show ?thesis
      proof (cases "typed env (trace w1 @ [Exec markerCmd]) = ''yes''")
        case False
        with Cons n Inr m None w2 show ?thesis by auto
      next
        case True
        then have y: "WaitForDangerousConfirmation env w2 = (True, log DangerousConfirmation w2)"
          by (simp add: WaitForDangerousConfirmation_eq w2 log_def)
        obtain o4 e4 w4 where x: "SSHExecute env c (log DangerousConfirmation w2) resetCmd = ((o4, e4), w4)"
          by (cases "SSHExecute env c (log DangerousConfirmation w2) resetCmd") auto
        obtain r5 w5 where i: "init_control_plane env c w4 cfg ip = (r5, w5)"
          by (cases "init_control_plane env c w4 cfg ip")
        from assms Cons n Inr m None y x i have "e4 = None \<and> r5 = Inl UserCancelled"
          by (cases e4) (simp_all add: initFirstMaster_def)
        with i show ?thesis using init_control_plane_error by blast
      qed
    qed
  qed
qed

section \<open>Properties: the order of the connection attempts\<close>










section \<open>Properties: retries\<close>



lemma plain_retry_events_Suc:
  "plain_retry_events command (Suc k)
     = Exec command # (if 1 < Suc k then Sleep 2 # plain_retry_events command k else [])"
  by (cases k) simp_all







lemma NewSSHClientWithPassword_heap:
  "NewSSHClientWithPassword env w h p u kf pw = (r, w') \<Longrightarrow> heap w' = heap w"
  by (auto simp: NewSSHClientWithPassword_def Let_def log_def split: sum.splits option.splits if_splits)








end
